theory Spec2Isabelle
  imports Main "HOL-Library.Word" "HOL-Library.Sublist"
begin

section \<open>Strings\<close>

text \<open>
  A string of the program is a sequence of UTF-16 code units: \<open>length\<close>, \<open>indexOf\<close> and
  \<open>slice\<close> count code units, while a \<open>for (const char of s)\<close> loop walks code points, a
  surrogate pair being one \<open>char\<close> of two units.
\<close>

type_synonym jsstring = "16 word list"

definition ascii :: "string \<Rightarrow> jsstring" where
  "ascii s = map of_char s"

definition isHighSurrogate :: "16 word \<Rightarrow> bool" where
  "isHighSurrogate u \<longleftrightarrow> 0xD800 \<le> u \<and> u \<le> 0xDBFF"

definition isLowSurrogate :: "16 word \<Rightarrow> bool" where
  "isLowSurrogate u \<longleftrightarrow> 0xDC00 \<le> u \<and> u \<le> 0xDFFF"

text \<open>The string iterator: the \<open>char\<close> values a \<open>for ... of\<close> loop sees, in order.\<close>

fun codePoints :: "jsstring \<Rightarrow> jsstring list" where
  "codePoints [] = []"
| "codePoints [u] = [[u]]"
| "codePoints (u # v # rest) =
     (if isHighSurrogate u \<and> isLowSurrogate v then [u, v] # codePoints rest
      else [u] # codePoints (v # rest))"

text \<open>\<open>char.codePointAt(0)\<close>; \<open>None\<close> is \<open>undefined\<close>, on the empty string.\<close>

fun codePointAt0 :: "jsstring \<Rightarrow> nat option" where
  "codePointAt0 [] = None"
| "codePointAt0 [u] = Some (unat u)"
| "codePointAt0 (u # v # rest) =
     (if isHighSurrogate u \<and> isLowSurrogate v
      then Some (0x10000 + (unat u - 0xD800) * 0x400 + (unat v - 0xDC00))
      else Some (unat u))"

text \<open>\<open>String.fromCodePoint\<close> on a code point of the basic plane, the only use made of it.\<close>

definition fromCodePoint :: "nat \<Rightarrow> jsstring" where
  "fromCodePoint code = [of_nat code]"

text \<open>\<open>xs.join(sep)\<close>.\<close>

fun join :: "jsstring \<Rightarrow> jsstring list \<Rightarrow> jsstring" where
  "join sep [] = []"
| "join sep [x] = x"
| "join sep (x # y # ys) = x @ sep @ join sep (y # ys)"

text \<open>\<open>s.slice(a, b)\<close> and \<open>s.slice(a)\<close> for indices that are not negative.\<close>

definition slice :: "jsstring \<Rightarrow> nat \<Rightarrow> nat \<Rightarrow> jsstring" where
  "slice s a b = take (b - a) (drop a s)"

definition sliceFrom :: "jsstring \<Rightarrow> nat \<Rightarrow> jsstring" where
  "sliceFrom s a = drop a s"

text \<open>
  \<open>s.indexOf(sub, pos)\<close>: the least index at or after \<open>pos\<close> (clamped to the length)
  where \<open>sub\<close> starts; \<open>None\<close> is the result \<open>-1\<close>.
\<close>

fun findFrom :: "jsstring \<Rightarrow> jsstring \<Rightarrow> nat \<Rightarrow> nat option" where
  "findFrom [] sub k = (if sub = [] then Some k else None)"
| "findFrom (c # cs) sub k =
     (if prefix sub (c # cs) then Some k else findFrom cs sub (Suc k))"

definition indexOf :: "jsstring \<Rightarrow> jsstring \<Rightarrow> nat \<Rightarrow> nat option" where
  "indexOf s sub pos = (let start = min pos (length s) in findFrom (drop start s) sub start)"

text \<open>
  \<open>String(n)\<close> and a number in a template literal, for an integer \<open>n\<close>: its decimal
  digits, with a minus sign when negative. (JavaScript prints an integer so when its
  magnitude is below \<open>10\<^sup>2\<^sup>1\<close>; the counters, ranks and positions converted here are
  integers far below that.)
\<close>

fun natToString :: "nat \<Rightarrow> jsstring" where
  "natToString n =
     (if n < 10 then [of_nat (48 + n)]
      else natToString (n div 10) @ [of_nat (48 + n mod 10)])"

definition numberToString :: "int \<Rightarrow> jsstring" where
  "numberToString i = (if i < 0 then ascii ''-'' @ natToString (nat (- i)) else natToString (nat i))"

section \<open>Kana classifier\<close>

definition isKanaChar :: "jsstring \<Rightarrow> bool" where
  "isKanaChar char =
     (case codePointAt0 char of
        None \<Rightarrow> False
      | Some code \<Rightarrow> (0x3040 \<le> code \<and> code \<le> 0x309f) \<or> (0x30a0 \<le> code \<and> code \<le> 0x30ff))"

definition isAllKana :: "jsstring \<Rightarrow> bool" where
  "isAllKana text = (if list_ex (\<lambda>char. \<not> isKanaChar char) (codePoints text) then False
                     else length text > 0)"

definition katakanaToHiragana :: "jsstring \<Rightarrow> jsstring" where
  "katakanaToHiragana text =
     fold (\<lambda>char result.
             case codePointAt0 char of
               None \<Rightarrow> result @ char
             | Some code \<Rightarrow>
                 if 0x30a1 \<le> code \<and> code \<le> 0x30f6 then result @ fromCodePoint (code - 0x60)
                 else result @ char)
          (codePoints text) []"

section \<open>Pitch accent\<close>

definition smallKana :: "jsstring list" where
  "smallKana =
     [[0x3083], [0x3085], [0x3087], [0x3041], [0x3043], [0x3045], [0x3047], [0x3049],
      [0x30E3], [0x30E5], [0x30E7], [0x30A1], [0x30A3], [0x30A5], [0x30A7], [0x30A9]]"

definition countMorae :: "jsstring \<Rightarrow> nat" where
  "countMorae reading =
     fold (\<lambda>char count. if char \<in> set smallKana then count else count + 1)
          (codePoints reading) 0"

definition getPitchCategory :: "jsstring \<Rightarrow> int \<Rightarrow> jsstring" where
  "getPitchCategory reading position =
     (let moraCount = countMorae reading in
      if position = 0 then ascii ''heiban''
      else if position = 1 then ascii ''atamadaka''
      else if position = int moraCount then ascii ''odaka''
      else ascii ''nakadaka'')"

text \<open>The reading of the examples, \<open>ta-be-ru\<close> in hiragana.\<close>

definition taberu :: jsstring where
  "taberu = [0x305F, 0x3079, 0x308B]"

section \<open>Furigana distribution\<close>

record FuriganaSegment =
  segText :: jsstring
  segReading :: jsstring

text \<open>A run of the expression: \<open>{ text, isKana }\<close>.\<close>

record Group =
  groupText :: jsstring
  isKana :: bool

text \<open>
  The loop that splits the expression into runs. Its state is \<open>groups\<close>,
  \<open>currentGroup\<close> and \<open>currentIsKana\<close>, which is \<open>null\<close> (\<open>None\<close>) before the first
  character; a \<open>null\<close> stored as \<open>isKana\<close> would read as false.
\<close>

definition pushGroup :: "Group list \<Rightarrow> jsstring \<Rightarrow> bool option \<Rightarrow> Group list" where
  "pushGroup groups currentGroup currentIsKana =
     (if currentGroup \<noteq> []
      then groups @ [\<lparr>groupText = currentGroup,
                      isKana = (case currentIsKana of None \<Rightarrow> False | Some b \<Rightarrow> b)\<rparr>]
      else groups)"

definition splitStep ::
  "jsstring \<Rightarrow> Group list \<times> jsstring \<times> bool option \<Rightarrow> Group list \<times> jsstring \<times> bool option" where
  "splitStep char st =
     (case st of (groups, currentGroup, currentIsKana) \<Rightarrow>
        let charIsKana = isKanaChar char in
        if Some charIsKana = currentIsKana then (groups, currentGroup @ char, currentIsKana)
        else (pushGroup groups currentGroup currentIsKana, char, Some charIsKana))"

definition splitGroups :: "jsstring \<Rightarrow> Group list" where
  "splitGroups expression =
     (case fold splitStep (codePoints expression) ([], [], None) of
        (groups, currentGroup, currentIsKana) \<Rightarrow> pushGroup groups currentGroup currentIsKana)"

text \<open>\<open>lastSeg.reading = r\<close> on the last element of a list that is not empty.\<close>

definition setLastReading :: "FuriganaSegment list \<Rightarrow> jsstring \<Rightarrow> FuriganaSegment list" where
  "setLastReading segments r = butlast segments @ [(last segments)\<lparr>segReading := r\<rparr>]"

text \<open>
  The walk over the runs, with the state \<open>segments\<close> and \<open>readingPos\<close>. \<open>None\<close> is the
  early return of the fallback, taken when a kana run is not found in the reading.
\<close>

fun walkGroups ::
  "jsstring \<Rightarrow> jsstring \<Rightarrow> Group list \<Rightarrow> FuriganaSegment list \<Rightarrow> nat
     \<Rightarrow> (FuriganaSegment list \<times> nat) option" where
  "walkGroups reading readingNorm [] segments readingPos = Some (segments, readingPos)"
| "walkGroups reading readingNorm (grp # groups) segments readingPos =
     (if isKana grp then
        (let kanaToFind = katakanaToHiragana (groupText grp) in
         case indexOf readingNorm kanaToFind readingPos of
           Some foundIdx \<Rightarrow>
             (let segments1 =
                (if foundIdx > readingPos \<and> length segments > 0
                 then setLastReading segments (slice reading readingPos foundIdx)
                 else if foundIdx > readingPos
                 then segments @ [\<lparr>segText = slice reading readingPos foundIdx, segReading = []\<rparr>]
                 else segments)
              in walkGroups reading readingNorm groups
                   (segments1 @ [\<lparr>segText = groupText grp, segReading = []\<rparr>])
                   (foundIdx + length kanaToFind))
         | None \<Rightarrow> None)
      else walkGroups reading readingNorm groups
             (segments @ [\<lparr>segText = groupText grp, segReading = []\<rparr>]) readingPos)"

text \<open>
  \<open>[...segments].reverse().find((s) => !isAllKana(s.text))\<close> followed by the assignment
  to the segment found: \<open>setFirstKanji\<close> works on the reversed copy.
\<close>

fun setFirstKanji :: "FuriganaSegment list \<Rightarrow> jsstring \<Rightarrow> FuriganaSegment list" where
  "setFirstKanji [] r = []"
| "setFirstKanji (s # ss) r =
     (if \<not> isAllKana (segText s) then s\<lparr>segReading := r\<rparr> # ss else s # setFirstKanji ss r)"

definition setLastKanji :: "FuriganaSegment list \<Rightarrow> jsstring \<Rightarrow> FuriganaSegment list" where
  "setLastKanji segments r = rev (setFirstKanji (rev segments) r)"

definition distributeFurigana :: "jsstring \<Rightarrow> jsstring \<Rightarrow> FuriganaSegment list" where
  "distributeFurigana expression reading =
     (if reading = expression \<or> reading = [] then [\<lparr>segText = expression, segReading = []\<rparr>]
      else if isAllKana expression then [\<lparr>segText = expression, segReading = []\<rparr>]
      else
        (let groups = splitGroups expression in
         if length groups = 1 then [\<lparr>segText = expression, segReading = reading\<rparr>]
         else
           (case walkGroups reading (katakanaToHiragana reading) groups [] 0 of
              None \<Rightarrow> [\<lparr>segText = expression, segReading = reading\<rparr>]
            | Some (segments, readingPos) \<Rightarrow>
                if readingPos < length reading
                then setLastKanji segments (sliceFrom reading readingPos)
                else segments)))"

definition buildFuriganaPlain :: "jsstring \<Rightarrow> jsstring \<Rightarrow> jsstring" where
  "buildFuriganaPlain expression reading =
     (if reading = [] \<or> reading = expression then expression
      else join (ascii '' '')
             (map (\<lambda>seg. if segReading seg \<noteq> []
                          then segText seg @ ascii ''['' @ segReading seg @ ascii '']''
                          else segText seg)
                  (distributeFurigana expression reading)))"

definition buildFuriganaHtml :: "jsstring \<Rightarrow> jsstring \<Rightarrow> jsstring" where
  "buildFuriganaHtml expression reading =
     (if reading = [] \<or> reading = expression then expression
      else join []
             (map (\<lambda>seg. if segReading seg \<noteq> []
                          then ascii ''<ruby>'' @ segText seg @ ascii ''<rt>'' @ segReading seg
                                 @ ascii ''</rt></ruby>''
                          else segText seg)
                  (distributeFurigana expression reading)))"

section \<open>Glossary serialization\<close>

text \<open>A gloss \<open>{ str, type }\<close> and a sense; an optional member that is absent is \<open>None\<close>.\<close>

record Gloss =
  glossStr :: jsstring
  glossType :: "jsstring option"

record Sense =
  senseG :: "Gloss list"
  sensePos :: "jsstring list option"
  senseField :: "jsstring list option"
  senseMisc :: "jsstring list option"
  senseInf :: "jsstring option"
  senseLang :: "jsstring option"

text \<open>\<open>xs?.length\<close> as a condition: the array is there and is not empty.\<close>

definition hasLength :: "'a list option \<Rightarrow> bool" where
  "hasLength xs = (case xs of None \<Rightarrow> False | Some ys \<Rightarrow> ys \<noteq> [])"

text \<open>An optional string as a condition: it is there and is not empty.\<close>

definition truthy :: "jsstring option \<Rightarrow> bool" where
  "truthy s = (case s of None \<Rightarrow> False | Some t \<Rightarrow> t \<noteq> [])"

definition glossesToStr :: "Sense \<Rightarrow> jsstring" where
  "glossesToStr sense =
     join (ascii ''; '')
       (map (\<lambda>gl. if glossType gl = Some (ascii ''tm'') then glossStr gl @ [0x2122] else glossStr gl)
            (senseG sense))"

definition serializeSingleSenseFull :: "Sense \<Rightarrow> jsstring" where
  "serializeSingleSenseFull sense =
     join (ascii '' '')
       ((if hasLength (sensePos sense)
         then [ascii ''<i>('' @ join (ascii '', '') (the (sensePos sense)) @ ascii '')</i>''] else [])
        @ (if hasLength (senseField sense)
           then [ascii ''('' @ join (ascii '', '') (the (senseField sense)) @ ascii '')''] else [])
        @ (if hasLength (senseMisc sense)
           then [ascii ''('' @ join (ascii '', '') (the (senseMisc sense)) @ ascii '')''] else [])
        @ [glossesToStr sense]
        @ (if truthy (senseInf sense)
           then [ascii ''('' @ the (senseInf sense) @ ascii '')''] else []))"

definition serializeSingleSenseBrief :: "Sense \<Rightarrow> jsstring" where
  "serializeSingleSenseBrief sense = glossesToStr sense"

text \<open>\<open>sense.lang && sense.lang !== 'en'\<close>: an empty tag counts as no tag.\<close>

definition isNative :: "Sense \<Rightarrow> bool" where
  "isNative sense = (truthy (senseLang sense) \<and> senseLang sense \<noteq> Some (ascii ''en''))"

definition senseText :: "bool \<Rightarrow> Sense \<Rightarrow> jsstring" where
  "senseText brief sense =
     (if brief then serializeSingleSenseBrief sense else serializeSingleSenseFull sense)"

text \<open>One turn of the loop over the senses; the state is \<open>parts\<close> and \<open>enIndex\<close>.\<close>

definition sensesHtmlStep :: "bool \<Rightarrow> Sense \<Rightarrow> jsstring list \<times> nat \<Rightarrow> jsstring list \<times> nat" where
  "sensesHtmlStep brief sense st =
     (case st of (parts, enIndex) \<Rightarrow>
        if isNative sense
        then (parts @ [[0x2022, 0x20] @ senseText brief sense], enIndex)
        else (parts @ [ascii ''('' @ numberToString (int enIndex) @ ascii '') '' @ senseText brief sense],
              enIndex + 1))"

definition serializeSensesHtml :: "Sense list \<Rightarrow> bool \<Rightarrow> jsstring" where
  "serializeSensesHtml senses brief =
     (if length senses = 0 then []
      else if length senses = 1 then senseText brief (senses ! 0)
      else join (ascii ''<br>'') (fst (fold (sensesHtmlStep brief) senses ([], 1))))"

definition serializeSensesPlain :: "Sense list \<Rightarrow> jsstring" where
  "serializeSensesPlain senses =
     (if length senses = 0 then []
      else join [0x0A]
             (map (\<lambda>(sense, i).
                     (if length senses > 1 then ascii ''('' @ numberToString (int (i + 1)) @ ascii '') ''
                      else []) @ glossesToStr sense)
                  (zip senses [0..<length senses])))"

section \<open>Objects and template rendering\<close>

text \<open>
  A \<open>Record<string, string>\<close> is an ordinary object: a finite map of its own properties,
  with \<open>Object.prototype\<close> behind it. A read \<open>obj[key]\<close> that finds no own property goes
  to the prototype, whose members are listed below; \<open>__proto__\<close> is an accessor there, so
  an assignment \<open>obj['__proto__'] = s\<close> of a string runs its setter, which ignores a value
  that is not an object, and creates no property.
\<close>

type_synonym jsobject = "jsstring \<rightharpoonup> jsstring"

definition protoKey :: jsstring where
  "protoKey = ascii ''__proto__''"

definition objectPrototypeKeys :: "jsstring list" where
  "objectPrototypeKeys =
     [ascii ''constructor'', ascii ''__defineGetter__'', ascii ''__defineSetter__'',
      ascii ''hasOwnProperty'', ascii ''__lookupGetter__'', ascii ''__lookupSetter__'',
      ascii ''isPrototypeOf'', ascii ''propertyIsEnumerable'', ascii ''toString'',
      ascii ''valueOf'', protoKey, ascii ''toLocaleString'']"

datatype jsvalue = JSUndefined | JSString jsstring | JSInherited jsstring

definition getProperty :: "jsobject \<Rightarrow> jsstring \<Rightarrow> jsvalue" where
  "getProperty obj key =
     (case obj key of
        Some v \<Rightarrow> JSString v
      | None \<Rightarrow> if key \<in> set objectPrototypeKeys then JSInherited key else JSUndefined)"

definition setProperty :: "jsobject \<Rightarrow> jsstring \<Rightarrow> jsstring \<Rightarrow> jsobject" where
  "setProperty obj key v = (if key = protoKey then obj else obj(key \<mapsto> v))"

text \<open>
  The string a replacer's result becomes. A member of \<open>Object.prototype\<close> is a built-in
  function, printed as its source text (the spacing is the engine's; V8's is written here),
  but for \<open>__proto__\<close>, which reads as the prototype object itself.
\<close>

definition inheritedToString :: "jsstring \<Rightarrow> jsstring" where
  "inheritedToString key =
     (if key = protoKey then ascii ''[object Object]''
      else ascii ''function ''
           @ (if key = ascii ''constructor'' then ascii ''Object'' else key)
           @ ascii ''() { [native code] }'')"

text \<open>\<open>String(markerValues[markerName] ?? '')\<close>.\<close>

definition markerText :: "jsobject \<Rightarrow> jsstring \<Rightarrow> jsstring" where
  "markerText markerValues markerName =
     (case getProperty markerValues markerName of
        JSUndefined \<Rightarrow> []
      | JSString v \<Rightarrow> v
      | JSInherited key \<Rightarrow> inheritedToString key)"

text \<open>The character classes \<open>\w\<close> and \<open>[\w-]\<close> of the pattern \<open>/\{([\w][\w-]*)\}/g\<close>.\<close>

definition isWordChar :: "16 word \<Rightarrow> bool" where
  "isWordChar u \<longleftrightarrow>
     (0x41 \<le> u \<and> u \<le> 0x5A) \<or> (0x61 \<le> u \<and> u \<le> 0x7A) \<or> (0x30 \<le> u \<and> u \<le> 0x39) \<or> u = 0x5F"

definition isNameChar :: "16 word \<Rightarrow> bool" where
  "isNameChar u \<longleftrightarrow> isWordChar u \<or> u = 0x2D"

text \<open>
  A match of the pattern at the start of a string: the marker name and the text after the
  closing brace. The star is greedy, and as a closing brace is no name character, no
  shorter repetition can match where the longest one does not.
\<close>

fun matchMarker :: "jsstring \<Rightarrow> (jsstring \<times> jsstring) option" where
  "matchMarker (c # d # ds) =
     (if c = 0x7B \<and> isWordChar d then
        (case dropWhile isNameChar ds of
           [] \<Rightarrow> None
         | e # rest \<Rightarrow> if e = 0x7D then Some (d # takeWhile isNameChar ds, rest) else None)
      else None)"
| "matchMarker _ = None"

lemma matchMarker_shorter:
  "matchMarker s = Some (name, rest) \<Longrightarrow> length rest < length s"
proof (cases s rule: matchMarker.cases)
  case (1 c d ds)
  assume m: "matchMarker s = Some (name, rest)"
  have "length (dropWhile isNameChar ds) \<le> length ds" by (rule length_dropWhile_le)
  with m 1 show ?thesis by (auto split: if_splits list.splits)
qed auto

text \<open>
  \<open>template.replace(pattern, replacer)\<close> with the global flag: the leftmost match is
  replaced and the scan goes on after it; the text put in is not scanned again.
\<close>

function renderFieldTemplate :: "jsstring \<Rightarrow> jsobject \<Rightarrow> jsstring" where
  "renderFieldTemplate [] markerValues = []"
| "renderFieldTemplate (c # cs) markerValues =
     (case matchMarker (c # cs) of
        Some (markerName, rest) \<Rightarrow> markerText markerValues markerName @ renderFieldTemplate rest markerValues
      | None \<Rightarrow> c # renderFieldTemplate cs markerValues)"
  by pat_completeness auto
termination
  by (relation "measure (\<lambda>(s, m). length s)") (auto dest: matchMarker_shorter)

section \<open>Dictionary entries, context and settings\<close>

text \<open>
  The result types come from the dictionary packages; only the members the note builder
  reads are kept. A word has kanji headwords \<open>k\<close> and readings \<open>r\<close>, each with its text
  \<open>ent\<close> and optional tags \<open>i\<close>; a reading may carry a romaji text and an accent \<open>a\<close>,
  which is a number, an array of \<open>{ i: number }\<close> or missing.
\<close>

record KanjiHeadword =
  kEnt :: jsstring
  kI :: "jsstring list option"

datatype Accent = AccentMissing | AccentNumber int | AccentArray "int list"

record KanaReading =
  rEnt :: jsstring
  rI :: "jsstring list option"
  rRomaji :: "jsstring option"
  rA :: Accent

record WordResult =
  wordK :: "KanjiHeadword list option"
  wordR :: "KanaReading list"
  wordS :: "Sense list"
  reasonChains :: "nat list list option"
  frequencyRank :: "int option"

record KanjiReadings =
  readingsOn :: "jsstring list option"
  readingsKun :: "jsstring list option"

record KanjiMisc =
  miscSc :: int

record KanjiResult =
  kanjiC :: jsstring
  kanjiR :: KanjiReadings
  kanjiM :: "jsstring list"
  kanjiMisc :: "KanjiMisc option"

record NameTranslation =
  trType :: "jsstring list option"
  trDet :: "jsstring list"

record NameResult =
  nameK :: "jsstring list option"
  nameR :: "jsstring list"
  nameTr :: "NameTranslation list"

datatype CopyEntry = WordEntry WordResult | KanjiEntry KanjiResult | NameEntry NameResult

record AnkiNoteContext =
  url :: "jsstring option"
  documentTitle :: "jsstring option"
  sentence :: "jsstring option"

datatype DuplicateScope = ScopeCollection | ScopeDeck | ScopeDeckRoot

text \<open>
  The settings. \<open>fieldTemplates\<close> is the list \<open>Object.entries\<close> gives for the record of
  templates: its own properties as pairs, no key twice.
\<close>

record AnkiSettings =
  enabled :: bool
  server :: jsstring
  apiKey :: jsstring
  settingsDeckName :: jsstring
  settingsModelName :: jsstring
  settingsTags :: "jsstring list"
  fieldTemplates :: "(jsstring \<times> jsstring) list"
  settingsDuplicateScope :: DuplicateScope
  checkForDuplicates :: bool

record DuplicateScopeOptions =
  scopeDeckName :: jsstring
  checkChildren :: bool
  checkAllModels :: bool

record NoteOptions =
  allowDuplicate :: bool
  duplicateScope :: DuplicateScope
  duplicateScopeOptions :: DuplicateScopeOptions

record AnkiNote =
  deckName :: jsstring
  modelName :: jsstring
  noteFields :: jsobject
  tags :: "jsstring list"
  options :: NoteOptions

definition ANKI_FIELD_MARKERS :: "jsstring list" where
  "ANKI_FIELD_MARKERS =
     [ascii ''expression'', ascii ''reading'', ascii ''reading-romaji'', ascii ''furigana'',
      ascii ''furigana-plain'',
      ascii ''glossary'', ascii ''glossary-brief'', ascii ''glossary-plain'',
      ascii ''glossary-no-dictionary'', ascii ''glossary-plain-no-dictionary'',
      ascii ''glossary-first'', ascii ''glossary-first-brief'',
      ascii ''glossary-first-no-dictionary'', ascii ''definition'',
      ascii ''part-of-speech'', ascii ''tags-pos'', ascii ''tags'', ascii ''conjugation'',
      ascii ''pitch-accent-positions'', ascii ''pitch-accent-categories'', ascii ''pitch-accents'',
      ascii ''pitch-accent-graphs'', ascii ''pitch-accent-graphs-jj'',
      ascii ''sentence'', ascii ''sentence-furigana'', ascii ''sentence-furigana-plain'',
      ascii ''url'', ascii ''document-title'', ascii ''search-query'',
      ascii ''cloze-body'', ascii ''cloze-body-kana'', ascii ''cloze-prefix'', ascii ''cloze-suffix'',
      ascii ''audio'', ascii ''screenshot'', ascii ''clipboard-image'', ascii ''clipboard-text'',
      ascii ''popup-selection-text'',
      ascii ''frequencies'', ascii ''frequency-harmonic-rank'',
      ascii ''frequency-harmonic-occurrence'', ascii ''frequency-average-rank'',
      ascii ''frequency-average-occurrence'',
      ascii ''phonetic-transcriptions'',
      ascii ''dictionary'', ascii ''dictionary-alias'',
      ascii ''character'', ascii ''onyomi'', ascii ''kunyomi'', ascii ''stroke-count'']"

section \<open>Marker value builder\<close>

text \<open>\<open>context?.member ?? ''\<close>.\<close>

definition contextText ::
  "(AnkiNoteContext \<Rightarrow> jsstring option) \<Rightarrow> AnkiNoteContext option \<Rightarrow> jsstring" where
  "contextText member context =
     (case context of
        None \<Rightarrow> []
      | Some c \<Rightarrow> (case member c of None \<Rightarrow> [] | Some s \<Rightarrow> s))"

text \<open>\<open>tags?.includes(tag)\<close> as a condition.\<close>

definition includesTag :: "jsstring list option \<Rightarrow> jsstring \<Rightarrow> bool" where
  "includesTag tagList tag = (case tagList of None \<Rightarrow> False | Some ts \<Rightarrow> tag \<in> set ts)"

text \<open>\<open>set.add(x)\<close> on a \<open>Set\<close> kept in insertion order, and \<open>new Set(xs)\<close>.\<close>

definition setAdd :: "jsstring \<Rightarrow> jsstring list \<Rightarrow> jsstring list" where
  "setAdd x s = (if x \<in> set s then s else s @ [x])"

definition newSet :: "jsstring list \<Rightarrow> jsstring list" where
  "newSet xs = fold setAdd xs []"

text \<open>
  \<open>s.replace(pat, rep)\<close> with a string pattern (the first occurrence only) and
  \<open>s.replace(/_/g, ' ')\<close>.
\<close>

definition replaceFirst :: "jsstring \<Rightarrow> jsstring \<Rightarrow> jsstring \<Rightarrow> jsstring" where
  "replaceFirst s pat rep =
     (case indexOf s pat 0 of
        None \<Rightarrow> s
      | Some i \<Rightarrow> take i s @ rep @ drop (i + length pat) s)"

definition underscoresToSpaces :: "jsstring \<Rightarrow> jsstring" where
  "underscoresToSpaces s = map (\<lambda>u. if u = 0x5F then 0x20 else u) s"

text \<open>
  The label of one deinflection reason. The table \<open>deinflectL10NKeys\<close> is imported from
  a module that is not among the sources; it is a parameter here.
\<close>

definition reasonLabel :: "(nat \<Rightarrow> jsstring option) \<Rightarrow> nat \<Rightarrow> jsstring" where
  "reasonLabel deinflectL10NKeys r =
     (if truthy (deinflectL10NKeys r)
      then underscoresToSpaces (replaceFirst (the (deinflectL10NKeys r)) (ascii ''deinflect_'') [])
      else numberToString (int r))"

definition pitchPositionsOf :: "KanaReading \<Rightarrow> jsstring list" where
  "pitchPositionsOf r =
     (case rA r of
        AccentNumber accentValue \<Rightarrow> [numberToString accentValue]
      | AccentArray accents \<Rightarrow> map numberToString accents
      | AccentMissing \<Rightarrow> [])"

definition pitchCategoriesOf :: "KanaReading \<Rightarrow> jsstring list" where
  "pitchCategoriesOf r =
     (case rA r of
        AccentNumber accentValue \<Rightarrow> [getPitchCategory (rEnt r) accentValue]
      | AccentArray accents \<Rightarrow> map (getPitchCategory (rEnt r)) accents
      | AccentMissing \<Rightarrow> [])"

definition optList :: "jsstring list option \<Rightarrow> jsstring list" where
  "optList xs = (case xs of None \<Rightarrow> [] | Some ys \<Rightarrow> ys)"

definition wordExpression :: "WordResult \<Rightarrow> jsstring" where
  "wordExpression word =
     (let kanjiHeadwords =
            (case wordK word of
               Some ks \<Rightarrow> filter (\<lambda>k. \<not> includesTag (kI k) (ascii ''sK'')) ks
             | None \<Rightarrow> [])
      in case kanjiHeadwords of
           k # _ \<Rightarrow> kEnt k
         | [] \<Rightarrow> (case wordR word of r # _ \<Rightarrow> rEnt r | [] \<Rightarrow> []))"

definition wordReadings :: "WordResult \<Rightarrow> KanaReading list" where
  "wordReadings word = filter (\<lambda>r. \<not> includesTag (rI r) (ascii ''sk'')) (wordR word)"

definition wordReading :: "WordResult \<Rightarrow> jsstring" where
  "wordReading word = (case wordReadings word of r # _ \<Rightarrow> rEnt r | [] \<Rightarrow> [])"

definition buildWordMarkers ::
  "(nat \<Rightarrow> jsstring option) \<Rightarrow> WordResult \<Rightarrow> AnkiNoteContext option \<Rightarrow> jsobject" where
  "buildWordMarkers deinflectL10NKeys word context =
     (let expression = wordExpression word;
          readings = wordReadings word;
          reading = wordReading word;
          readingRomaji =
            join (ascii '', '') (map (\<lambda>r. case rRomaji r of None \<Rightarrow> [] | Some s \<Rightarrow> s) readings);
          furiganaPlain = buildFuriganaPlain expression reading;
          furiganaHtml = buildFuriganaHtml expression reading;
          glossaryFull = serializeSensesHtml (wordS word) False;
          glossaryBrief = serializeSensesHtml (wordS word) True;
          glossaryPlain = serializeSensesPlain (wordS word);
          glossaryFirstBrief =
            (case wordS word of s # _ \<Rightarrow> serializeSingleSenseBrief s | [] \<Rightarrow> []);
          glossaryFirstFull =
            (case wordS word of s # _ \<Rightarrow> serializeSingleSenseFull s | [] \<Rightarrow> []);
          partOfSpeech =
            join (ascii '', '')
              (fold (\<lambda>sense posSet. fold setAdd (optList (sensePos sense)) posSet) (wordS word) []);
          pitchPositions = concat (map pitchPositionsOf readings);
          pitchCategories = concat (map pitchCategoriesOf readings);
          conjugation =
            (if hasLength (reasonChains word)
             then join (ascii '', '')
                    (map (\<lambda>chain. join [0x20, 0xAB, 0x20] (map (reasonLabel deinflectL10NKeys) chain))
                         (the (reasonChains word)))
             else []);
          tagList =
            concat (map (\<lambda>sense. optList (sensePos sense) @ optList (senseMisc sense)
                                   @ optList (senseField sense)) (wordS word));
          tagsStr = join (ascii '', '') (newSet tagList);
          rankText = (case frequencyRank word of None \<Rightarrow> [] | Some n \<Rightarrow> numberToString n)
      in map_of
        [(ascii ''expression'', expression),
         (ascii ''reading'', reading),
         (ascii ''furigana'', furiganaHtml),
         (ascii ''furigana-plain'', furiganaPlain),
         (ascii ''glossary'', glossaryFull),
         (ascii ''glossary-brief'', glossaryBrief),
         (ascii ''glossary-no-dictionary'', glossaryBrief),
         (ascii ''glossary-plain'', glossaryPlain),
         (ascii ''glossary-plain-no-dictionary'', glossaryPlain),
         (ascii ''glossary-first'', glossaryFirstFull),
         (ascii ''glossary-first-brief'', glossaryFirstBrief),
         (ascii ''glossary-first-no-dictionary'', glossaryFirstBrief),
         (ascii ''part-of-speech'', partOfSpeech),
         (ascii ''conjugation'', conjugation),
         (ascii ''pitch-accent-positions'', join (ascii '', '') pitchPositions),
         (ascii ''pitch-accent-categories'', join (ascii '', '') pitchCategories),
         (ascii ''pitch-accents'', join (ascii '', '') pitchPositions),
         (ascii ''sentence'', contextText sentence context),
         (ascii ''url'', contextText url context),
         (ascii ''document-title'', contextText documentTitle context),
         (ascii ''search-query'', expression),
         (ascii ''tags'', tagsStr),
         (ascii ''audio'', []),
         (ascii ''screenshot'', []),
         (ascii ''clipboard-image'', []),
         (ascii ''clipboard-text'', []),
         (ascii ''popup-selection-text'', []),
         (ascii ''sentence-furigana'', []),
         (ascii ''sentence-furigana-plain'', []),
         (ascii ''frequencies'',
            (case frequencyRank word of
               None \<Rightarrow> []
             | Some n \<Rightarrow> ascii ''<ul style='' @ [0x22] @ ascii ''text-align: left;'' @ [0x22]
                         @ ascii ''><li>Global: '' @ numberToString n @ ascii ''</li></ul>'')),
         (ascii ''frequency-harmonic-rank'', rankText),
         (ascii ''frequency-harmonic-occurrence'', []),
         (ascii ''frequency-average-rank'', rankText),
         (ascii ''frequency-average-occurrence'', []),
         (ascii ''cloze-body'', expression),
         (ascii ''cloze-body-kana'', reading),
         (ascii ''cloze-prefix'', []),
         (ascii ''cloze-suffix'', []),
         (ascii ''phonetic-transcriptions'', []),
         (ascii ''pitch-accent-graphs'', []),
         (ascii ''pitch-accent-graphs-jj'', []),
         (ascii ''dictionary'', []),
         (ascii ''dictionary-alias'', []),
         (ascii ''reading-romaji'', readingRomaji),
         (ascii ''definition'', glossaryBrief),
         (ascii ''tags-pos'', partOfSpeech)])"

definition buildKanjiMarkers :: "KanjiResult \<Rightarrow> AnkiNoteContext option \<Rightarrow> jsobject" where
  "buildKanjiMarkers kanji context =
     (let onReadings = optList (readingsOn (kanjiR kanji));
          kunReadings = optList (readingsKun (kanjiR kanji));
          allReadings = join [0x3001] (onReadings @ kunReadings);
          meanings = join (ascii '', '') (kanjiM kanji);
          firstMeaning = (case kanjiM kanji of m # _ \<Rightarrow> m | [] \<Rightarrow> [])
      in map_of
        [(ascii ''expression'', kanjiC kanji),
         (ascii ''character'', kanjiC kanji),
         (ascii ''reading'', allReadings),
         (ascii ''onyomi'', join [0x3001] onReadings),
         (ascii ''kunyomi'', join [0x3001] kunReadings),
         (ascii ''glossary'', meanings),
         (ascii ''glossary-brief'', meanings),
         (ascii ''glossary-plain'', meanings),
         (ascii ''glossary-first'', firstMeaning),
         (ascii ''glossary-first-brief'', firstMeaning),
         (ascii ''definition'', meanings),
         (ascii ''stroke-count'',
            (case kanjiMisc kanji of
               None \<Rightarrow> []
             | Some m \<Rightarrow> if miscSc m \<noteq> 0 then numberToString (miscSc m) else [])),
         (ascii ''url'', contextText url context),
         (ascii ''document-title'', contextText documentTitle context),
         (ascii ''sentence'', contextText sentence context),
         (ascii ''furigana'', kanjiC kanji),
         (ascii ''furigana-plain'', kanjiC kanji),
         (ascii ''tags'', []),
         (ascii ''tags-pos'', []),
         (ascii ''part-of-speech'', []),
         (ascii ''reading-romaji'', []),
         (ascii ''audio'', []),
         (ascii ''popup-selection-text'', []),
         (ascii ''pitch-accent-positions'', []),
         (ascii ''pitch-accent-categories'', []),
         (ascii ''pitch-accents'', []),
         (ascii ''frequencies'', []),
         (ascii ''frequency-harmonic-rank'', []),
         (ascii ''frequency-harmonic-occurrence'', []),
         (ascii ''frequency-average-rank'', []),
         (ascii ''frequency-average-occurrence'', []),
         (ascii ''conjugation'', []),
         (ascii ''search-query'', kanjiC kanji)])"

definition nameDefinitions :: "NameResult \<Rightarrow> jsstring list" where
  "nameDefinitions name =
     map (\<lambda>tr. join (ascii '' '')
                 ((if hasLength (trType tr)
                   then [ascii ''('' @ join (ascii '', '') (the (trType tr)) @ ascii '')''] else [])
                  @ [join (ascii '', '') (trDet tr)]))
         (nameTr name)"

definition buildNameMarkers :: "NameResult \<Rightarrow> AnkiNoteContext option \<Rightarrow> jsobject" where
  "buildNameMarkers name context =
     (let expression =
            (case nameK name of Some ks \<Rightarrow> join [0x3001] ks | None \<Rightarrow> join [0x3001] (nameR name));
          reading = join [0x3001] (nameR name);
          definitions = nameDefinitions name;
          definition = join (ascii ''; '') definitions;
          firstDefinition = (case definitions of d # _ \<Rightarrow> d | [] \<Rightarrow> []);
          primaryReading = (case nameR name of r # _ \<Rightarrow> r | [] \<Rightarrow> []);
          primaryExpr = (case nameK name of Some (k # _) \<Rightarrow> k | _ \<Rightarrow> primaryReading)
      in map_of
        [(ascii ''expression'', expression),
         (ascii ''reading'', reading),
         (ascii ''glossary'', definition),
         (ascii ''glossary-brief'', definition),
         (ascii ''glossary-plain'', definition),
         (ascii ''glossary-first'', firstDefinition),
         (ascii ''glossary-first-brief'', firstDefinition),
         (ascii ''definition'', definition),
         (ascii ''furigana'', buildFuriganaPlain primaryExpr primaryReading),
         (ascii ''furigana-plain'', buildFuriganaPlain primaryExpr primaryReading),
         (ascii ''url'', contextText url context),
         (ascii ''document-title'', contextText documentTitle context),
         (ascii ''sentence'', contextText sentence context),
         (ascii ''tags'', []),
         (ascii ''tags-pos'', []),
         (ascii ''part-of-speech'', []),
         (ascii ''reading-romaji'', []),
         (ascii ''audio'', []),
         (ascii ''popup-selection-text'', []),
         (ascii ''pitch-accent-positions'', []),
         (ascii ''pitch-accent-categories'', []),
         (ascii ''pitch-accents'', []),
         (ascii ''frequencies'', []),
         (ascii ''frequency-harmonic-rank'', []),
         (ascii ''frequency-harmonic-occurrence'', []),
         (ascii ''frequency-average-rank'', []),
         (ascii ''frequency-average-occurrence'', []),
         (ascii ''conjugation'', []),
         (ascii ''search-query'', expression)])"

fun buildMarkerValues ::
  "(nat \<Rightarrow> jsstring option) \<Rightarrow> CopyEntry \<Rightarrow> AnkiNoteContext option \<Rightarrow> jsobject" where
  "buildMarkerValues deinflectL10NKeys (WordEntry data) context =
     buildWordMarkers deinflectL10NKeys data context"
| "buildMarkerValues deinflectL10NKeys (KanjiEntry data) context = buildKanjiMarkers data context"
| "buildMarkerValues deinflectL10NKeys (NameEntry data) context = buildNameMarkers data context"

section \<open>Note assembly\<close>

text \<open>
  The two loops of \<open>buildAnkiNote\<close>, each an assignment per entry: the overrides into the
  marker values, and the rendered templates into \<open>fields\<close>, which starts empty. The
  overrides, when given, are the list \<open>Object.entries\<close> gives for them.
\<close>

definition applyOverrides :: "jsobject \<Rightarrow> (jsstring \<times> jsstring) list option \<Rightarrow> jsobject" where
  "applyOverrides markerValues markerOverrides =
     (case markerOverrides of
        None \<Rightarrow> markerValues
      | Some entries \<Rightarrow> fold (\<lambda>(key, v) mv. setProperty mv key v) entries markerValues)"

definition renderFields :: "(jsstring \<times> jsstring) list \<Rightarrow> jsobject \<Rightarrow> jsobject" where
  "renderFields templates markerValues =
     fold (\<lambda>(fieldName, template) fs.
             setProperty fs fieldName (renderFieldTemplate template markerValues))
          templates Map.empty"

definition buildAnkiNote ::
  "(nat \<Rightarrow> jsstring option) \<Rightarrow> CopyEntry \<Rightarrow> AnkiSettings \<Rightarrow> AnkiNoteContext option
     \<Rightarrow> (jsstring \<times> jsstring) list option \<Rightarrow> AnkiNote" where
  "buildAnkiNote deinflectL10NKeys entry settings context markerOverrides =
     (let markerValues =
            applyOverrides (buildMarkerValues deinflectL10NKeys entry context) markerOverrides
      in \<lparr>deckName = settingsDeckName settings,
          modelName = settingsModelName settings,
          noteFields = renderFields (fieldTemplates settings) markerValues,
          tags = settingsTags settings,
          options =
            \<lparr>allowDuplicate = \<not> checkForDuplicates settings,
             duplicateScope = settingsDuplicateScope settings,
             duplicateScopeOptions =
               \<lparr>scopeDeckName = settingsDeckName settings,
                checkChildren = True,
                checkAllModels = False\<rparr>\<rparr>\<rparr>)"

section \<open>Example inputs\<close>

text \<open>A kanji entry and settings with given templates, used to instantiate the theorems.\<close>

definition neko :: KanjiResult where
  "neko = \<lparr>kanjiC = [0x732B],
           kanjiR = \<lparr>readingsOn = Some [[0x30D3, 0x30E7, 0x30A6]], readingsKun = Some [[0x306D, 0x3053]]\<rparr>,
           kanjiM = [ascii ''cat''], kanjiMisc = Some \<lparr>miscSc = 11\<rparr>\<rparr>"

definition basicSettings :: "(jsstring \<times> jsstring) list \<Rightarrow> AnkiSettings" where
  "basicSettings templates =
     \<lparr>enabled = True, server = ascii ''http://127.0.0.1:8765'', apiKey = [],
      settingsDeckName = ascii ''Default'', settingsModelName = ascii ''Basic'',
      settingsTags = [ascii ''10ten''], fieldTemplates = templates,
      settingsDuplicateScope = ScopeCollection, checkForDuplicates = True\<rparr>"

section \<open>Properties of the pitch accent classifier\<close>

lemma countMorae_fold:
  "fold (\<lambda>char count. if char \<in> set smallKana then count else count + 1) cs n =
     n + length (filter (\<lambda>c. c \<notin> set smallKana) cs)"
  by (induction cs arbitrary: n) auto

lemma countMorae_filter:
  "countMorae r = length (filter (\<lambda>c. c \<notin> set smallKana) (codePoints r))"
  by (simp add: countMorae_def countMorae_fold)

lemma countMorae_taberu: "countMorae taberu = 3"
  by (simp add: countMorae_def taberu_def smallKana_def isHighSurrogate_def)

text \<open>
  C5. The mora count is the number of characters of the reading that are not in the small
  kana set. The classifier answers heiban at drop position 0, atamadaka at 1, odaka at the
  mora count (when that is neither 0 nor 1, the earlier answers coming first) and nakadaka
  everywhere else; on the reading \<open>ta-be-ru\<close> the positions 0, 1, 3 and 2 are heiban,
  atamadaka, odaka and nakadaka.
\<close>

theorem getPitchCategory_classes:
  "countMorae r = length (filter (\<lambda>char. char \<notin> set smallKana) (codePoints r)) \<and>
   (p = 0 \<longrightarrow> getPitchCategory r p = ascii ''heiban'') \<and>
   (p = 1 \<longrightarrow> getPitchCategory r p = ascii ''atamadaka'') \<and>
   (p \<noteq> 0 \<and> p \<noteq> 1 \<and> p = int (countMorae r) \<longrightarrow> getPitchCategory r p = ascii ''odaka'') \<and>
   (p \<noteq> 0 \<and> p \<noteq> 1 \<and> p \<noteq> int (countMorae r) \<longrightarrow> getPitchCategory r p = ascii ''nakadaka'') \<and>
   getPitchCategory taberu 0 = ascii ''heiban'' \<and>
   getPitchCategory taberu 1 = ascii ''atamadaka'' \<and>
   getPitchCategory taberu 3 = ascii ''odaka'' \<and>
   getPitchCategory taberu 2 = ascii ''nakadaka''"
  by (simp add: countMorae_filter [symmetric] getPitchCategory_def countMorae_taberu)

theorem getPitchCategory_classes_witness:
  "getPitchCategory [0x304D, 0x3087, 0x3046] 0 = ascii ''heiban'' \<and>
   getPitchCategory [0x304D, 0x3087, 0x3046] 1 = ascii ''atamadaka'' \<and>
   countMorae [0x304D, 0x3087, 0x3046] = 2 \<and>
   getPitchCategory [0x304D, 0x3087, 0x3046] 2 = ascii ''odaka'' \<and>
   getPitchCategory [0x304D, 0x3087, 0x3046] 3 = ascii ''nakadaka''"
proof -
  have m: "countMorae [0x304D, 0x3087, 0x3046] = 2"
    by (simp add: countMorae_def smallKana_def isHighSurrogate_def)
  show ?thesis
    using getPitchCategory_classes [of "[0x304D, 0x3087, 0x3046]" 0]
      getPitchCategory_classes [of "[0x304D, 0x3087, 0x3046]" 1]
      getPitchCategory_classes [of "[0x304D, 0x3087, 0x3046]" 2]
      getPitchCategory_classes [of "[0x304D, 0x3087, 0x3046]" 3]
    by (simp add: m)
qed

section \<open>Properties of the furigana distributor\<close>

lemma concat_codePoints: "concat (codePoints s) = s"
  by (induction s rule: codePoints.induct) auto

lemma splitStep_text:
  "splitStep c (gs, cur, k) = (gs', cur', k') \<Longrightarrow>
     concat (map groupText gs') @ cur' = concat (map groupText gs) @ cur @ c"
  by (auto simp: splitStep_def pushGroup_def Let_def split: if_splits)

lemma fold_splitStep_text:
  "fold splitStep cs (gs, cur, k) = (gs', cur', k') \<Longrightarrow>
     concat (map groupText gs') @ cur' = concat (map groupText gs) @ cur @ concat cs"
proof (induction cs arbitrary: gs cur k)
  case Nil
  then show ?case by simp
next
  case (Cons c cs)
  obtain gs1 cur1 k1 where s: "splitStep c (gs, cur, k) = (gs1, cur1, k1)"
    by (cases "splitStep c (gs, cur, k)") auto
  with Cons.prems have "fold splitStep cs (gs1, cur1, k1) = (gs', cur', k')" by simp
  from Cons.IH [OF this] splitStep_text [OF s] show ?case by simp
qed

lemma pushGroup_text: "concat (map groupText (pushGroup gs cur k)) = concat (map groupText gs) @ cur"
  by (simp add: pushGroup_def)

lemma splitGroups_text: "concat (map groupText (splitGroups e)) = e"
proof -
  obtain gs cur k where f: "fold splitStep (codePoints e) ([], [], None) = (gs, cur, k)"
    by (cases "fold splitStep (codePoints e) ([], [], None)") auto
  from fold_splitStep_text [OF f] show ?thesis
    by (simp add: splitGroups_def f pushGroup_text concat_codePoints)
qed

lemma setLastReading_text: "segs \<noteq> [] \<Longrightarrow> map segText (setLastReading segs r) = map segText segs"
proof -
  assume "segs \<noteq> []"
  then have "segs = butlast segs @ [last segs]" by simp
  then have "map segText segs = map segText (butlast segs) @ [segText (last segs)]"
    by (metis list.simps(8,9) map_append)
  then show ?thesis by (simp add: setLastReading_def)
qed

lemma walkGroups_text:
  "walkGroups r rn gs segs pos = Some (segs', pos') \<Longrightarrow> segs \<noteq> [] \<Longrightarrow>
     concat (map segText segs') = concat (map segText segs) @ concat (map groupText gs)"
proof (induction gs arbitrary: segs pos)
  case Nil
  then show ?case by simp
next
  case (Cons g gs)
  show ?case
  proof (cases "isKana g")
    case False
    with Cons.prems have "walkGroups r rn gs (segs @ [\<lparr>segText = groupText g, segReading = []\<rparr>]) pos = Some (segs', pos')"
      by simp
    from Cons.IH [OF this] show ?thesis by simp
  next
    case True
    with Cons.prems obtain k where k: "indexOf rn (katakanaToHiragana (groupText g)) pos = Some k"
      by (auto simp: Let_def split: option.splits)
    define segs1 where "segs1 = (if k > pos then setLastReading segs (slice r pos k) else segs)"
    have t: "map segText segs1 = map segText segs"
      using Cons.prems(2) by (simp add: segs1_def setLastReading_text)
    have "walkGroups r rn gs (segs1 @ [\<lparr>segText = groupText g, segReading = []\<rparr>])
            (k + length (katakanaToHiragana (groupText g))) = Some (segs', pos')"
      using Cons.prems True k by (auto simp: Let_def segs1_def split: if_splits)
    from Cons.IH [OF this] t show ?thesis by simp
  qed
qed

lemma setFirstKanji_text: "map segText (setFirstKanji ss r) = map segText ss"
  by (induction ss) auto

lemma setLastKanji_text: "map segText (setLastKanji ss r) = map segText ss"
  by (simp add: setLastKanji_def setFirstKanji_text rev_map [symmetric])

lemma findFrom_None:
  "findFrom s sub k = None \<longleftrightarrow> (\<forall>j\<le>length s. \<not> prefix sub (drop j s))"
proof (induction s arbitrary: k)
  case Nil
  then show ?case by simp
next
  case (Cons c cs)
  have "(\<forall>j\<le>length (c # cs). \<not> prefix sub (drop j (c # cs))) \<longleftrightarrow>
        (\<not> prefix sub (c # cs) \<and> (\<forall>j\<le>length cs. \<not> prefix sub (drop j cs)))"
    (is "?L \<longleftrightarrow> ?R")
  proof
    assume l: ?L
    have "\<not> prefix sub (c # cs)" using l [rule_format, of 0] by simp
    moreover have "\<forall>j\<le>length cs. \<not> prefix sub (drop j cs)"
      using l [rule_format, of "Suc j" for j] by simp
    ultimately show ?R by simp
  next
    assume r: ?R
    show ?L
    proof (intro allI impI)
      fix j assume "j \<le> length (c # cs)"
      then show "\<not> prefix sub (drop j (c # cs))"
        using r by (cases j) auto
    qed
  qed
  with Cons.IH show ?case by simp
qed

lemma indexOf_None:
  "indexOf s sub pos = None \<longleftrightarrow> (\<forall>k\<ge>pos. \<not> prefix sub (drop k s))"
proof
  assume n: "indexOf s sub pos = None"
  define start where "start = min pos (length s)"
  from n have f: "\<forall>j\<le>length (drop start s). \<not> prefix sub (drop j (drop start s))"
    by (simp add: indexOf_def start_def [symmetric] findFrom_None)
  show "\<forall>k\<ge>pos. \<not> prefix sub (drop k s)"
  proof (intro allI impI)
    fix k assume k: "pos \<le> k"
    show "\<not> prefix sub (drop k s)"
    proof (cases "k \<le> length s")
      case True
      then have "k - start \<le> length (drop start s)" by simp
      with f have "\<not> prefix sub (drop (k - start) (drop start s))" by blast
      moreover have "k - start + start = k" using k by (simp add: start_def)
      ultimately show ?thesis by simp
    next
      case False
      have "length s - start \<le> length (drop start s)" by simp
      with f have "\<not> prefix sub (drop (length s - start) (drop start s))" by blast
      moreover have "length s - start + start = length s" by (simp add: start_def)
      ultimately have "\<not> prefix sub []" by simp
      with False show ?thesis by simp
    qed
  qed
next
  assume a: "\<forall>k\<ge>pos. \<not> prefix sub (drop k s)"
  define start where "start = min pos (length s)"
  have "\<forall>j\<le>length (drop start s). \<not> prefix sub (drop j (drop start s))"
  proof (intro allI impI)
    fix j assume "j \<le> length (drop start s)"
    show "\<not> prefix sub (drop j (drop start s))"
    proof (cases "pos \<le> length s")
      case True
      then have "start = pos" by (simp add: start_def)
      with a [rule_format, of "j + pos"] show ?thesis by simp
    next
      case False
      then have "drop (j + start) s = []" by (simp add: start_def)
      moreover from False a [rule_format, of pos] have "\<not> prefix sub []" by simp
      ultimately show ?thesis by simp
    qed
  qed
  then show "indexOf s sub pos = None"
    by (simp add: indexOf_def start_def [symmetric] findFrom_None)
qed


lemma walkGroups_append:
  "walkGroups r rn (gs1 @ gs2) segs pos =
     (case walkGroups r rn gs1 segs pos of
        None \<Rightarrow> None
      | Some (segs1, pos1) \<Rightarrow> walkGroups r rn gs2 segs1 pos1)"
  by (induction gs1 arbitrary: segs pos) (auto simp: Let_def split: option.splits)

lemma walkGroups_first_text:
  assumes "walkGroups r rn (g # gs) [] 0 = Some (segs', pos')"
  shows "concat (map segText segs') =
           (if isKana g
            then (case indexOf rn (katakanaToHiragana (groupText g)) 0 of
                    Some k \<Rightarrow> take k r | None \<Rightarrow> [])
            else []) @ concat (map groupText (g # gs))"
proof (cases "isKana g")
  case False
  with assms have "walkGroups r rn gs [\<lparr>segText = groupText g, segReading = []\<rparr>] 0 = Some (segs', pos')"
    by simp
  from walkGroups_text [OF this] False show ?thesis by simp
next
  case True
  with assms obtain k where k: "indexOf rn (katakanaToHiragana (groupText g)) 0 = Some k"
    by (auto simp: Let_def split: option.splits)
  define segs1 where
    "segs1 = (if k > 0 then [\<lparr>segText = slice r 0 k, segReading = []\<rparr>] else [])
               @ [\<lparr>segText = groupText g, segReading = []\<rparr>]"
  have w: "walkGroups r rn gs segs1 (k + length (katakanaToHiragana (groupText g))) = Some (segs', pos')"
    using assms True k by (auto simp: Let_def segs1_def split: if_splits)
  have ne: "segs1 \<noteq> []" by (simp add: segs1_def)
  have "concat (map segText segs1) = take k r @ groupText g"
    by (simp add: segs1_def slice_def)
  with walkGroups_text [OF w ne] True k show ?thesis by simp
qed

text \<open>
  C1, as amended. The texts of the segments, joined, are the expression, with one exception:
  when the walk is taken (the reading is neither empty nor the expression, the expression
  is not all kana), the expression has two runs or more, begins with a kana run whose
  normalised text is first found in the normalised reading at an index \<open>k\<close>, and the
  alignment does not fall back to the single segment, the first \<open>k\<close> code units of the
  reading stand before the expression (nothing when \<open>k = 0\<close>). They are the segment the
  walk emits for reading text that precedes a kana run when no segment exists yet.
\<close>

theorem distributeFurigana_text:
  "concat (map segText (distributeFurigana e r)) =
     (case splitGroups e of
        g # g' # gs \<Rightarrow>
          (if isKana g \<and> r \<noteq> e \<and> r \<noteq> [] \<and> \<not> isAllKana e \<and>
              walkGroups r (katakanaToHiragana r) (splitGroups e) [] 0 \<noteq> None
           then (case indexOf (katakanaToHiragana r) (katakanaToHiragana (groupText g)) 0 of
                   Some k \<Rightarrow> take k r | None \<Rightarrow> [])
           else [])
      | _ \<Rightarrow> []) @ e"
  (is "?L = ?G @ e")
proof (cases "r = e \<or> r = [] \<or> isAllKana e")
  case True
  then have "?L = e" by (auto simp: distributeFurigana_def)
  moreover from True have "?G = []" by (auto split: list.splits)
  ultimately show ?thesis by simp
next
  case early: False
  have e: "concat (map groupText (splitGroups e)) = e" by (rule splitGroups_text)
  show ?thesis
  proof (cases "splitGroups e")
    case Nil
    with e have "e = []" by simp
    moreover from Nil early have "distributeFurigana e r = []"
      by (simp add: distributeFurigana_def setLastKanji_def)
    ultimately show ?thesis using Nil by simp
  next
    case (Cons g gs1)
    show ?thesis
    proof (cases gs1)
      case Nil
      with Cons early have "distributeFurigana e r = [\<lparr>segText = e, segReading = r\<rparr>]"
        by (simp add: distributeFurigana_def)
      with Cons Nil show ?thesis by simp
    next
      case (Cons g' gs)
      with \<open>splitGroups e = g # gs1\<close> have sg: "splitGroups e = g # g' # gs" by simp
      show ?thesis
      proof (cases "walkGroups r (katakanaToHiragana r) (g # g' # gs) [] 0")
        case None
        with sg early have "distributeFurigana e r = [\<lparr>segText = e, segReading = r\<rparr>]"
          by (simp add: distributeFurigana_def)
        then have "?L = e" by simp
        moreover from None sg have "?G = []" by simp
        ultimately show ?thesis by simp
      next
        case (Some p)
        obtain segs pos where p: "p = (segs, pos)" by (cases p)
        with Some have
          w: "walkGroups r (katakanaToHiragana r) (g # g' # gs) [] 0 = Some (segs, pos)"
          by simp
        from sg early w have "map segText (distributeFurigana e r) = map segText segs"
          by (simp add: distributeFurigana_def setLastKanji_text)
        then have "?L = concat (map segText segs)" by simp
        also have "\<dots> = (if isKana g
            then (case indexOf (katakanaToHiragana r) (katakanaToHiragana (groupText g)) 0 of
                    Some k \<Rightarrow> take k r | None \<Rightarrow> [])
            else []) @ concat (map groupText (g # g' # gs))"
          by (rule walkGroups_first_text [OF w])
        also have "concat (map groupText (g # g' # gs)) = e" using e sg by simp
        finally show ?thesis using sg early w by simp
      qed
    qed
  qed
qed

lemmas furigana_eval_defs =
  distributeFurigana_def isAllKana_def isKanaChar_def splitGroups_def splitStep_def
  pushGroup_def katakanaToHiragana_def indexOf_def isHighSurrogate_def isLowSurrogate_def
  fromCodePoint_def slice_def sliceFrom_def setLastKanji_def setLastReading_def

theorem distributeFurigana_text_counterexample:
  "concat (map segText (distributeFurigana [0x3070, 0x5834] [0x3042, 0x3070, 0x3070]))
     \<noteq> [0x3070, 0x5834]"
  by (simp add: furigana_eval_defs)

theorem distributeFurigana_text_witness:
  "concat (map segText (distributeFurigana [0x3070, 0x5834] [0x3042, 0x3070, 0x3070]))
     = take 1 [0x3042, 0x3070, 0x3070] @ [0x3070, 0x5834] \<and>
   concat (map segText (distributeFurigana [0x98df, 0x3079, 0x308b] [0x305f, 0x3079, 0x308b]))
     = [0x98df, 0x3079, 0x308b]"
  using distributeFurigana_text [of "[0x3070, 0x5834]" "[0x3042, 0x3070, 0x3070]"]
    distributeFurigana_text [of "[0x98df, 0x3079, 0x308b]" "[0x305f, 0x3079, 0x308b]"]
  by (simp add: furigana_eval_defs)

text \<open>
  C4. Suppose the walk is taken (the reading is not the expression and the expression is
  not all kana), it has passed the runs \<open>gs1\<close> and stands at the cursor \<open>pos\<close>, and the
  next run \<open>g\<close> is a kana run whose normalised text starts at no index \<open>k \<ge> pos\<close> of the
  normalised reading. Then the result is the single segment of the whole expression with
  the whole reading, as given. The function has no failing branch: it returns a list on
  every input.
\<close>

theorem distributeFurigana_fallback:
  assumes reached: "r \<noteq> e" "\<not> isAllKana e"
    and runs: "splitGroups e = gs1 @ g # gs2"
    and before: "walkGroups r (katakanaToHiragana r) gs1 [] 0 = Some (segs, pos)"
    and kana: "isKana g"
    and absent: "\<forall>k\<ge>pos. \<not> prefix (katakanaToHiragana (groupText g)) (drop k (katakanaToHiragana r))"
  shows "distributeFurigana e r = [\<lparr>segText = e, segReading = r\<rparr>]"
proof -
  from absent have "indexOf (katakanaToHiragana r) (katakanaToHiragana (groupText g)) pos = None"
    by (simp add: indexOf_None)
  with kana have "walkGroups r (katakanaToHiragana r) (g # gs2) segs pos = None"
    by simp
  with before runs have "walkGroups r (katakanaToHiragana r) (splitGroups e) [] 0 = None"
    by (simp add: walkGroups_append)
  with reached show ?thesis
    by (simp add: distributeFurigana_def Let_def)
qed

theorem distributeFurigana_fallback_witness:
  "splitGroups [0x98df, 0x3079, 0x308b]
     = [\<lparr>groupText = [0x98df], isKana = False\<rparr>] @ \<lparr>groupText = [0x3079, 0x308b], isKana = True\<rparr> # [] \<and>
   indexOf (katakanaToHiragana [0x305f, 0x3079]) (katakanaToHiragana [0x3079, 0x308b]) 0 = None \<and>
   distributeFurigana [0x98df, 0x3079, 0x308b] [0x305f, 0x3079]
     = [\<lparr>segText = [0x98df, 0x3079, 0x308b], segReading = [0x305f, 0x3079]\<rparr>]"
proof -
  have r: "splitGroups [0x98df, 0x3079, 0x308b]
     = [\<lparr>groupText = [0x98df], isKana = False\<rparr>] @ \<lparr>groupText = [0x3079, 0x308b], isKana = True\<rparr> # []"
    by (simp add: furigana_eval_defs)
  have w: "walkGroups [0x305f, 0x3079] (katakanaToHiragana [0x305f, 0x3079])
             [\<lparr>groupText = [0x98df], isKana = False\<rparr>] [] 0
           = Some ([\<lparr>segText = [0x98df], segReading = []\<rparr>], 0)"
    by simp
  have n: "indexOf (katakanaToHiragana [0x305f, 0x3079]) (katakanaToHiragana [0x3079, 0x308b]) 0 = None"
    by (simp add: furigana_eval_defs)
  then have a: "\<forall>k\<ge>0. \<not> prefix (katakanaToHiragana (groupText \<lparr>groupText = [0x3079, 0x308b], isKana = True\<rparr>))
                   (drop k (katakanaToHiragana [0x305f, 0x3079]))"
    by (simp add: indexOf_None)
  have "distributeFurigana [0x98df, 0x3079, 0x308b] [0x305f, 0x3079]
     = [\<lparr>segText = [0x98df, 0x3079, 0x308b], segReading = [0x305f, 0x3079]\<rparr>]"
    by (rule distributeFurigana_fallback [OF _ _ r w _ a]) (simp_all add: furigana_eval_defs)
  with r n show ?thesis by simp
qed

section \<open>Properties of the glossary serializer\<close>

lemma upt_0_Suc_map: "[0..<Suc n] = 0 # map Suc [0..<n]"
  by (simp add: upt_conv_Cons map_Suc_upt del: upt_Suc)

lemma sensesHtmlStep_eq:
  "sensesHtmlStep b s (parts, n) =
     (parts @ [(if isNative s then [0x2022, 0x20]
                else ascii ''('' @ numberToString (int n) @ ascii '') '') @ senseText b s],
      if isNative s then n else Suc n)"
  by (simp add: sensesHtmlStep_def)

lemma fold_sensesHtmlStep:
  "fold (sensesHtmlStep b) ss (parts, n) =
     (parts @ map (\<lambda>i. (if isNative (ss ! i) then [0x2022, 0x20]
                         else ascii ''(''
                              @ numberToString (int (n + length (filter (\<lambda>s. \<not> isNative s) (take i ss))))
                              @ ascii '') '') @ senseText b (ss ! i))
                  [0..<length ss],
      n + length (filter (\<lambda>s. \<not> isNative s) ss))"
proof (induction ss arbitrary: parts n)
  case Nil
  then show ?case by simp
next
  case (Cons s ss)
  show ?case
    by (simp add: sensesHtmlStep_eq Cons.IH upt_0_Suc_map comp_def ac_simps del: upt_Suc cong: if_cong)
qed

lemma zip_upt_nth: "zip xs [0..<length xs] = map (\<lambda>i. (xs ! i, i)) [0..<length xs]"
  by (rule nth_equalityI) auto

lemma isNative_iff:
  "isNative s \<longleftrightarrow> (\<exists>l. senseLang s = Some l \<and> l \<noteq> [] \<and> l \<noteq> ascii ''en'')"
  by (auto simp: isNative_def truthy_def split: option.splits)

text \<open>
  C6, as amended. For a list of two senses or more, the HTML form is the senses joined by
  \<open><br>\<close>, where a sense whose language tag is present, not empty and not \<open>en\<close> has the
  bullet prefix, and every other sense has the prefix \<open>(n)\<close>, \<open>n\<close> being one more than the
  number of senses before it that are not native-language (so a native-language sense
  uses no number). The plain form is the senses joined by a newline, the sense at index
  \<open>i\<close> having the prefix \<open>(i + 1)\<close> whatever its language.
\<close>

theorem serializeSenses_numbering:
  "2 \<le> length senses \<Longrightarrow>
     serializeSensesHtml senses brief =
       join (ascii ''<br>'')
         (map (\<lambda>i. (if \<exists>l. senseLang (senses ! i) = Some l \<and> l \<noteq> [] \<and> l \<noteq> ascii ''en''
                     then [0x2022, 0x20]
                     else ascii ''(''
                          @ numberToString (int (1 + length (filter (\<lambda>s. \<not> isNative s) (take i senses))))
                          @ ascii '') '')
                    @ (if brief then serializeSingleSenseBrief (senses ! i)
                       else serializeSingleSenseFull (senses ! i)))
              [0..<length senses]) \<and>
     serializeSensesPlain senses =
       join [0x0A]
         (map (\<lambda>i. ascii ''('' @ numberToString (int (i + 1)) @ ascii '') '' @ glossesToStr (senses ! i))
              [0..<length senses])"
proof -
  assume "2 \<le> length senses"
  then have n: "length senses \<noteq> 0" "length senses \<noteq> 1" "1 < length senses" by auto
  have "serializeSensesHtml senses brief =
       join (ascii ''<br>'')
         (map (\<lambda>i. (if \<exists>l. senseLang (senses ! i) = Some l \<and> l \<noteq> [] \<and> l \<noteq> ascii ''en''
                     then [0x2022, 0x20]
                     else ascii ''(''
                          @ numberToString (int (1 + length (filter (\<lambda>s. \<not> isNative s) (take i senses))))
                          @ ascii '') '')
                    @ (if brief then serializeSingleSenseBrief (senses ! i)
                       else serializeSingleSenseFull (senses ! i)))
              [0..<length senses])"
    unfolding serializeSensesHtml_def fold_sensesHtmlStep
    using n by (simp add: isNative_iff [symmetric] senseText_def cong: if_cong)
  moreover have "serializeSensesPlain senses =
       join [0x0A]
         (map (\<lambda>i. ascii ''('' @ numberToString (int (i + 1)) @ ascii '') '' @ glossesToStr (senses ! i))
              [0..<length senses])"
    unfolding serializeSensesPlain_def zip_upt_nth
    using n by (simp add: comp_def add.commute)
  ultimately show ?thesis by simp
qed

lemmas gloss_eval_defs =
  serializeSensesHtml_def serializeSensesPlain_def sensesHtmlStep_def senseText_def
  serializeSingleSenseBrief_def serializeSingleSenseFull_def glossesToStr_def isNative_def
  truthy_def hasLength_def numberToString_def ascii_def

text \<open>
  The claim counts a tag as native-language when it is present and not \<open>en\<close>. The empty
  tag is present and is not \<open>en\<close>, and the first sense below carries it; it is numbered.
\<close>

theorem serializeSenses_numbering_counterexample:
  "senseLang \<lparr>senseG = [\<lparr>glossStr = ascii ''a'', glossType = None\<rparr>], sensePos = None,
              senseField = None, senseMisc = None, senseInf = None, senseLang = Some []\<rparr> \<noteq> None \<and>
   senseLang \<lparr>senseG = [\<lparr>glossStr = ascii ''a'', glossType = None\<rparr>], sensePos = None,
              senseField = None, senseMisc = None, senseInf = None, senseLang = Some []\<rparr>
     \<noteq> Some (ascii ''en'') \<and>
   serializeSensesHtml
     [\<lparr>senseG = [\<lparr>glossStr = ascii ''a'', glossType = None\<rparr>], sensePos = None,
       senseField = None, senseMisc = None, senseInf = None, senseLang = Some []\<rparr>,
      \<lparr>senseG = [\<lparr>glossStr = ascii ''b'', glossType = None\<rparr>], sensePos = None,
       senseField = None, senseMisc = None, senseInf = None, senseLang = None\<rparr>] True
     = ascii ''(1) a<br>(2) b''"
  by (simp add: gloss_eval_defs)

theorem serializeSenses_numbering_witness:
  "serializeSensesHtml
     [\<lparr>senseG = [\<lparr>glossStr = ascii ''a'', glossType = None\<rparr>], sensePos = None,
       senseField = None, senseMisc = None, senseInf = None, senseLang = Some (ascii ''en'')\<rparr>,
      \<lparr>senseG = [\<lparr>glossStr = ascii ''b'', glossType = None\<rparr>], sensePos = None,
       senseField = None, senseMisc = None, senseInf = None, senseLang = Some (ascii ''de'')\<rparr>,
      \<lparr>senseG = [\<lparr>glossStr = ascii ''c'', glossType = None\<rparr>], sensePos = None,
       senseField = None, senseMisc = None, senseInf = None, senseLang = None\<rparr>] True
     = ascii ''(1) a<br>'' @ [0x2022] @ ascii '' b<br>(2) c'' \<and>
   serializeSensesPlain
     [\<lparr>senseG = [\<lparr>glossStr = ascii ''a'', glossType = None\<rparr>], sensePos = None,
       senseField = None, senseMisc = None, senseInf = None, senseLang = Some (ascii ''en'')\<rparr>,
      \<lparr>senseG = [\<lparr>glossStr = ascii ''b'', glossType = None\<rparr>], sensePos = None,
       senseField = None, senseMisc = None, senseInf = None, senseLang = Some (ascii ''de'')\<rparr>,
      \<lparr>senseG = [\<lparr>glossStr = ascii ''c'', glossType = None\<rparr>], sensePos = None,
       senseField = None, senseMisc = None, senseInf = None, senseLang = None\<rparr>]
     = ascii ''(1) a'' @ [0x0A] @ ascii ''(2) b'' @ [0x0A] @ ascii ''(3) c''"
  using serializeSenses_numbering
    [of "[\<lparr>senseG = [\<lparr>glossStr = ascii ''a'', glossType = None\<rparr>], sensePos = None,
       senseField = None, senseMisc = None, senseInf = None, senseLang = Some (ascii ''en'')\<rparr>,
      \<lparr>senseG = [\<lparr>glossStr = ascii ''b'', glossType = None\<rparr>], sensePos = None,
       senseField = None, senseMisc = None, senseInf = None, senseLang = Some (ascii ''de'')\<rparr>,
      \<lparr>senseG = [\<lparr>glossStr = ascii ''c'', glossType = None\<rparr>], sensePos = None,
       senseField = None, senseMisc = None, senseInf = None, senseLang = None\<rparr>]" True]
  by (simp add: gloss_eval_defs)


section \<open>Properties of the template renderer\<close>

text \<open>The embedding of ASCII text into code units is injective.\<close>

lemma unat_of_char: "unat (of_char c :: 16 word) = of_char c"
proof -
  have "(of_char c :: 16 word) = of_nat (of_char c)" by (simp add: of_nat_of_char)
  moreover have "(of_char c :: nat) < 2 ^ 16"
  proof -
    have "(of_char c :: nat) < 256" by (rule nat_of_char_less_256)
    then have "(of_char c :: nat) < 65536" by linarith
    then show ?thesis by simp
  qed
  ultimately show ?thesis by (simp add: unat_of_nat)
qed
lemma of_char_word_eq_iff: "(of_char c :: 16 word) = of_char d \<longleftrightarrow> c = d"
proof
  assume "(of_char c :: 16 word) = of_char d"
  then have "unat (of_char c :: 16 word) = unat (of_char d :: 16 word)" by simp
  then have "(of_char c :: nat) = of_char d" by (simp only: unat_of_char)
  then show "c = d" by (simp add: of_char_eq_iff)
qed simp
lemma inj_of_char_word: "inj (of_char :: char \<Rightarrow> 16 word)"
  by (rule injI) (simp add: of_char_word_eq_iff)
lemma map_of_char_eq_iff: "map (of_char :: char \<Rightarrow> 16 word) s = map of_char t \<longleftrightarrow> s = t"
  by (rule inj_map_eq_map [OF inj_of_char_word])

lemma ascii_eq_iff [simp]: "ascii s = ascii t \<longleftrightarrow> s = t"
  by (simp add: ascii_def map_of_char_eq_iff)

lemma brace_not_name [simp]: "\<not> isNameChar 0x7D" "\<not> isNameChar 0x7B" "\<not> isWordChar 0x7B"
  by (simp_all add: isNameChar_def isWordChar_def)

lemma matchMarker_name:
  assumes "k \<noteq> []" "isWordChar (hd k)" "list_all isNameChar (tl k)"
  shows "matchMarker (0x7B # k @ 0x7D # b) = Some (k, b)"
proof -
  from assms(1) obtain d ds where k: "k = d # ds" by (cases k) auto
  with assms have d: "isWordChar d" and ds: "\<forall>x\<in>set ds. isNameChar x"
    by (simp_all add: list_all_iff)
  from ds have "dropWhile isNameChar (ds @ 0x7D # b) = 0x7D # b"
    by (simp add: dropWhile_append)
  moreover from ds have "takeWhile isNameChar (ds @ 0x7D # b) = ds"
    by (simp add: takeWhile_append)
  ultimately show ?thesis using d k by simp
qed

lemma matchMarker_Some_append:
  "matchMarker s = Some (n, rest) \<Longrightarrow> matchMarker (s @ t) = Some (n, rest @ t)"
proof (cases s rule: matchMarker.cases)
  case (1 c d ds)
  assume m: "matchMarker s = Some (n, rest)"
  with 1 obtain e where e: "dropWhile isNameChar ds = e # rest" "e = 0x7D" "c = 0x7B" "isWordChar d"
    "n = d # takeWhile isNameChar ds"
    by (auto split: if_splits list.splits)
  from e(1) have "\<exists>x\<in>set ds. \<not> isNameChar x"
    by (metis dropWhile_eq_Nil_conv list.distinct(1))
  then have "dropWhile isNameChar (ds @ t) = dropWhile isNameChar ds @ t"
    and "takeWhile isNameChar (ds @ t) = takeWhile isNameChar ds"
    by (auto simp: dropWhile_append takeWhile_append)
  with e 1 show ?thesis by simp
qed auto

lemma matchMarker_None_brace:
  assumes "matchMarker s = None" "s \<noteq> []"
  shows "matchMarker (s @ 0x7B # t) = None"
proof (cases s rule: matchMarker.cases)
  case (1 c d ds)
  show ?thesis
  proof (cases "c = 0x7B \<and> isWordChar d")
    case False
    with 1 show ?thesis by auto
  next
    case True
    show ?thesis
    proof (cases "\<forall>x\<in>set ds. isNameChar x")
      case all: True
      then have "dropWhile isNameChar (ds @ 0x7B # t) = 0x7B # t"
        by (simp add: dropWhile_append)
      with 1 True show ?thesis by simp
    next
      case False
      then have dw: "dropWhile isNameChar (ds @ 0x7B # t) = dropWhile isNameChar ds @ 0x7B # t"
        by (auto simp: dropWhile_append)
      from False obtain e rest where er: "dropWhile isNameChar ds = e # rest"
        by (cases "dropWhile isNameChar ds") (auto simp: dropWhile_eq_Nil_conv)
      with assms(1) 1 True have "e \<noteq> 0x7D" by (auto split: if_splits)
      with 1 True dw er show ?thesis by simp
    qed
  qed
qed (use assms in auto)

lemma renderFieldTemplate_append_marker:
  assumes "k \<noteq> []" "isWordChar (hd k)" "list_all isNameChar (tl k)"
  shows "renderFieldTemplate (a @ 0x7B # k @ 0x7D # b) m =
           renderFieldTemplate a m @ markerText m k @ renderFieldTemplate b m"
proof (induction a m rule: renderFieldTemplate.induct)
  case (1 m)
  show ?case using matchMarker_name [OF assms, of b] by simp
next
  case (2 c cs m)
  show ?case
  proof (cases "matchMarker (c # cs)")
    case None
    then have "matchMarker ((c # cs) @ 0x7B # k @ 0x7D # b) = None"
      by (rule matchMarker_None_brace) simp
    with None 2 show ?thesis by simp
  next
    case (Some p)
    obtain n rest where p: "p = (n, rest)" by (cases p)
    from Some p have "matchMarker (c # cs) = Some (n, rest)" by simp
    then have "matchMarker ((c # cs) @ 0x7B # k @ 0x7D # b) = Some (n, rest @ 0x7B # k @ 0x7D # b)"
      by (rule matchMarker_Some_append)
    with Some p 2 show ?thesis by simp
  qed
qed

lemma renderFieldTemplate_plain:
  "0x7B \<notin> set s \<Longrightarrow> renderFieldTemplate s m = s"
proof (induction s)
  case Nil
  then show ?case by simp
next
  case (Cons c cs)
  then have "matchMarker (c # cs) = None" by (cases cs) auto
  with Cons show ?case by simp
qed

lemma matchMarker_shape:
  assumes "matchMarker s = Some (n, rest)"
  shows "s = 0x7B # n @ 0x7D # rest \<and> n \<noteq> [] \<and> isWordChar (hd n) \<and> list_all isNameChar (tl n)"
proof (cases s rule: matchMarker.cases)
  case (1 c d ds)
  with assms have e: "dropWhile isNameChar ds = 0x7D # rest" "c = 0x7B" "isWordChar d"
    "n = d # takeWhile isNameChar ds"
    by (auto split: if_splits list.splits)
  have "ds = takeWhile isNameChar ds @ dropWhile isNameChar ds" by simp
  with e have "ds = takeWhile isNameChar ds @ 0x7D # rest" by simp
  moreover have "list_all isNameChar (takeWhile isNameChar ds)"
    by (simp add: list_all_iff) (meson set_takeWhileD)
  ultimately show ?thesis using 1 e by simp
qed (use assms in auto)

lemmas render_eval_defs =
  isWordChar_def isNameChar_def markerText_def getProperty_def objectPrototypeKeys_def
  protoKey_def inheritedToString_def

text \<open>
  The renderer, in general. A marker \<open>{k}\<close> whose name has the shape of the pattern (a word
  character, then word characters or hyphens) is replaced, wherever it stands, by the value
  of \<open>k\<close> in the map, and the text before and after it is rendered on its own: the value put
  in is not scanned. When the map has no property \<open>k\<close> the replacement is empty, unless \<open>k\<close>
  names a member of \<open>Object.prototype\<close>. Text without an opening brace is unchanged. The two
  examples of the specification hold.
\<close>

theorem renderFieldTemplate_substitution:
  "(k \<noteq> [] \<and> isWordChar (hd k) \<and> list_all isNameChar (tl k) \<longrightarrow>
      renderFieldTemplate (a @ 0x7B # k @ 0x7D # b) m =
        renderFieldTemplate a m
        @ (case m k of
             Some v \<Rightarrow> v
           | None \<Rightarrow> if k \<in> set objectPrototypeKeys then inheritedToString k else [])
        @ renderFieldTemplate b m) \<and>
   (0x7B \<notin> set s \<longrightarrow> renderFieldTemplate s m = s) \<and>
   renderFieldTemplate (ascii ''{expression}: {reading}'')
     (map_of [(ascii ''expression'', [0x732B]), (ascii ''reading'', [0x306D, 0x3053])])
     = [0x732B] @ ascii '': '' @ [0x306D, 0x3053] \<and>
   renderFieldTemplate (ascii ''{unknown}'') Map.empty = []"
proof -
  have 1: "renderFieldTemplate (a @ 0x7B # k @ 0x7D # b) m =
        renderFieldTemplate a m
        @ (case m k of
             Some v \<Rightarrow> v
           | None \<Rightarrow> if k \<in> set objectPrototypeKeys then inheritedToString k else [])
        @ renderFieldTemplate b m"
    if "k \<noteq> []" "isWordChar (hd k)" "list_all isNameChar (tl k)"
    using renderFieldTemplate_append_marker [OF that, of a b m]
    by (simp add: markerText_def getProperty_def split: option.splits)
  have 2: "renderFieldTemplate (ascii ''{expression}: {reading}'')
     (map_of [(ascii ''expression'', [0x732B]), (ascii ''reading'', [0x306D, 0x3053])])
     = [0x732B] @ ascii '': '' @ [0x306D, 0x3053]"
    by (simp add: ascii_def render_eval_defs)
  have 3: "renderFieldTemplate (ascii ''{unknown}'') Map.empty = []"
    by (simp add: ascii_def render_eval_defs)
  from 1 2 3 show ?thesis by (simp add: renderFieldTemplate_plain)
qed

theorem renderFieldTemplate_substitution_witness:
  "renderFieldTemplate (ascii ''a{x-1}b'') (map_of [(ascii ''x-1'', ascii ''{y}'')]) = ascii ''a{y}b'' \<and>
   renderFieldTemplate (ascii ''no markers'') Map.empty = ascii ''no markers''"
proof -
  have s: "ascii ''x-1'' \<noteq> [] \<and> isWordChar (hd (ascii ''x-1'')) \<and> list_all isNameChar (tl (ascii ''x-1''))"
    by (simp add: ascii_def isWordChar_def isNameChar_def)
  have t: "ascii ''a{x-1}b'' = ascii ''a'' @ 0x7B # ascii ''x-1'' @ 0x7D # ascii ''b''"
    by (simp add: ascii_def)
  have n: "0x7B \<notin> set (ascii ''no markers'')" "0x7B \<notin> set (ascii ''a'')" "0x7B \<notin> set (ascii ''b'')"
    by (simp_all add: ascii_def)
  have u: "ascii ''a'' @ ascii ''{y}'' @ ascii ''b'' = ascii ''a{y}b''" by (simp add: ascii_def)
  from renderFieldTemplate_substitution
    [of "ascii ''x-1''" "ascii ''a''" "ascii ''b''" "map_of [(ascii ''x-1'', ascii ''{y}'')]" "ascii ''a''"]
    renderFieldTemplate_substitution
    [of "ascii ''x-1''" "ascii ''a''" "ascii ''b''" "map_of [(ascii ''x-1'', ascii ''{y}'')]" "ascii ''b''"]
    renderFieldTemplate_substitution
    [of "ascii ''x-1''" "ascii ''a''" "ascii ''b''" "Map.empty" "ascii ''no markers''"]
    s n
  show ?thesis unfolding t by (simp add: u)
qed

section \<open>Properties of the marker value builder\<close>

lemmas marker_eval_defs =
  buildWordMarkers_def buildKanjiMarkers_def buildNameMarkers_def ANKI_FIELD_MARKERS_def
  Let_def

lemma word_missing:
  "filter (\<lambda>k. buildMarkerValues keys (WordEntry word) context k = None) ANKI_FIELD_MARKERS =
     [ascii ''character'', ascii ''onyomi'', ascii ''kunyomi'', ascii ''stroke-count'']"
  by (simp add: marker_eval_defs)

lemma kanji_missing:
  "filter (\<lambda>k. buildMarkerValues keys (KanjiEntry kanji) context k = None) ANKI_FIELD_MARKERS =
     [ascii ''glossary-no-dictionary'', ascii ''glossary-plain-no-dictionary'',
      ascii ''glossary-first-no-dictionary'', ascii ''pitch-accent-graphs'',
      ascii ''pitch-accent-graphs-jj'', ascii ''sentence-furigana'',
      ascii ''sentence-furigana-plain'', ascii ''cloze-body'', ascii ''cloze-body-kana'',
      ascii ''cloze-prefix'', ascii ''cloze-suffix'', ascii ''screenshot'',
      ascii ''clipboard-image'', ascii ''clipboard-text'', ascii ''phonetic-transcriptions'',
      ascii ''dictionary'', ascii ''dictionary-alias'']"
  by (simp add: marker_eval_defs)

lemma name_missing:
  "filter (\<lambda>k. buildMarkerValues keys (NameEntry nm) context k = None) ANKI_FIELD_MARKERS =
     [ascii ''glossary-no-dictionary'', ascii ''glossary-plain-no-dictionary'',
      ascii ''glossary-first-no-dictionary'', ascii ''pitch-accent-graphs'',
      ascii ''pitch-accent-graphs-jj'', ascii ''sentence-furigana'',
      ascii ''sentence-furigana-plain'', ascii ''cloze-body'', ascii ''cloze-body-kana'',
      ascii ''cloze-prefix'', ascii ''cloze-suffix'', ascii ''screenshot'',
      ascii ''clipboard-image'', ascii ''clipboard-text'', ascii ''phonetic-transcriptions'',
      ascii ''dictionary'', ascii ''dictionary-alias'', ascii ''character'', ascii ''onyomi'',
      ascii ''kunyomi'', ascii ''stroke-count'']"
  by (simp add: marker_eval_defs)

text \<open>
  C2, evaluated on the code. Of the fifty names of \<open>ANKI_FIELD_MARKERS\<close>, the map built
  for a word has no key for four, the map built for a kanji none for seventeen, and the map
  built for a name none for twenty-one; the lists below are the vocabulary names, in order,
  that are no key of the map, for every entry and context.
\<close>

theorem buildMarkerValues_missing_markers:
  "filter (\<lambda>k. buildMarkerValues keys (WordEntry word) context k = None) ANKI_FIELD_MARKERS =
     [ascii ''character'', ascii ''onyomi'', ascii ''kunyomi'', ascii ''stroke-count''] \<and>
   filter (\<lambda>k. buildMarkerValues keys (KanjiEntry kanji) context k = None) ANKI_FIELD_MARKERS =
     [ascii ''glossary-no-dictionary'', ascii ''glossary-plain-no-dictionary'',
      ascii ''glossary-first-no-dictionary'', ascii ''pitch-accent-graphs'',
      ascii ''pitch-accent-graphs-jj'', ascii ''sentence-furigana'',
      ascii ''sentence-furigana-plain'', ascii ''cloze-body'', ascii ''cloze-body-kana'',
      ascii ''cloze-prefix'', ascii ''cloze-suffix'', ascii ''screenshot'',
      ascii ''clipboard-image'', ascii ''clipboard-text'', ascii ''phonetic-transcriptions'',
      ascii ''dictionary'', ascii ''dictionary-alias''] \<and>
   filter (\<lambda>k. buildMarkerValues keys (NameEntry nm) context k = None) ANKI_FIELD_MARKERS =
     [ascii ''glossary-no-dictionary'', ascii ''glossary-plain-no-dictionary'',
      ascii ''glossary-first-no-dictionary'', ascii ''pitch-accent-graphs'',
      ascii ''pitch-accent-graphs-jj'', ascii ''sentence-furigana'',
      ascii ''sentence-furigana-plain'', ascii ''cloze-body'', ascii ''cloze-body-kana'',
      ascii ''cloze-prefix'', ascii ''cloze-suffix'', ascii ''screenshot'',
      ascii ''clipboard-image'', ascii ''clipboard-text'', ascii ''phonetic-transcriptions'',
      ascii ''dictionary'', ascii ''dictionary-alias'', ascii ''character'', ascii ''onyomi'',
      ascii ''kunyomi'', ascii ''stroke-count'']"
  by (simp only: word_missing kanji_missing name_missing simp_thms)

text \<open>
  C9. For every kanji entry and context, the markers \<open>furigana\<close> and \<open>furigana-plain\<close> are
  the kanji character itself, with nothing added, while the marker \<open>reading\<close> is the on
  readings followed by the kun readings, joined by the ideographic comma.
\<close>

theorem buildKanjiMarkers_furigana:
  "buildMarkerValues keys (KanjiEntry kanji) context (ascii ''furigana'') = Some (kanjiC kanji) \<and>
   buildMarkerValues keys (KanjiEntry kanji) context (ascii ''furigana-plain'') = Some (kanjiC kanji) \<and>
   buildMarkerValues keys (KanjiEntry kanji) context (ascii ''reading'') =
     Some (join [0x3001] (optList (readingsOn (kanjiR kanji)) @ optList (readingsKun (kanjiR kanji))))"
  by (simp add: marker_eval_defs)

theorem buildKanjiMarkers_furigana_witness:
  "buildMarkerValues (\<lambda>r. None) (KanjiEntry neko) None (ascii ''furigana'') = Some [0x732B] \<and>
   buildMarkerValues (\<lambda>r. None) (KanjiEntry neko) None (ascii ''furigana-plain'') = Some [0x732B] \<and>
   buildMarkerValues (\<lambda>r. None) (KanjiEntry neko) None (ascii ''reading'')
     = Some [0x30D3, 0x30E7, 0x30A6, 0x3001, 0x306D, 0x3053]"
  using buildKanjiMarkers_furigana [of "\<lambda>r. None" neko None]
  by (simp add: neko_def optList_def)

lemma constructor_absent:
  "buildMarkerValues keys entry context (ascii ''constructor'') = None"
  by (cases entry) (simp_all add: marker_eval_defs)

text \<open>
  C7, evaluated on the code. The name \<open>constructor\<close> is no key of the empty map, nor of
  any map the builder makes, yet the template \<open>{constructor}\<close> does not render as the empty
  string: the read finds the member of \<open>Object.prototype\<close>, and its text is put in.
\<close>

theorem renderFieldTemplate_constructor:
  "renderFieldTemplate (ascii ''{constructor}'') Map.empty = ascii ''function Object() { [native code] }'' \<and>
   renderFieldTemplate (ascii ''{constructor}'') (buildMarkerValues keys entry context)
     = ascii ''function Object() { [native code] }''"
proof -
  have s: "ascii ''constructor'' \<noteq> []" "isWordChar (hd (ascii ''constructor''))"
    "list_all isNameChar (tl (ascii ''constructor''))"
    by (simp_all add: ascii_def isWordChar_def isNameChar_def)
  have t: "ascii ''{constructor}'' = [] @ 0x7B # ascii ''constructor'' @ 0x7D # []"
    by (simp add: ascii_def)
  have "renderFieldTemplate (ascii ''{constructor}'') m = markerText m (ascii ''constructor'')" for m
    unfolding t using renderFieldTemplate_append_marker [OF s, of "[]" "[]" m] by simp
  moreover have "markerText m (ascii ''constructor'') = ascii ''function Object() { [native code] }''"
    if "m (ascii ''constructor'') = None" for m
    using that by (simp add: markerText_def getProperty_def objectPrototypeKeys_def
        inheritedToString_def protoKey_def ascii_def)
  ultimately show ?thesis by (simp add: constructor_absent)
qed

text \<open>
  C3, evaluated on the code. A word without kanji headwords whose first reading is flagged
  \<open>sk\<close> and whose second reading is not: the marker \<open>expression\<close> is the first reading,
  the flagged one, while the marker \<open>reading\<close> is the second.
\<close>

theorem wordExpression_search_only_reading:
  "buildMarkerValues keys
     (WordEntry \<lparr>wordK = None,
                 wordR = [\<lparr>rEnt = [0x30AC], rI = Some [ascii ''sk''], rRomaji = None, rA = AccentMissing\<rparr>,
                          \<lparr>rEnt = [0x304C], rI = None, rRomaji = None, rA = AccentMissing\<rparr>],
                 wordS = [], reasonChains = None, frequencyRank = None\<rparr>)
     context (ascii ''expression'') = Some [0x30AC] \<and>
   buildMarkerValues keys
     (WordEntry \<lparr>wordK = None,
                 wordR = [\<lparr>rEnt = [0x30AC], rI = Some [ascii ''sk''], rRomaji = None, rA = AccentMissing\<rparr>,
                          \<lparr>rEnt = [0x304C], rI = None, rRomaji = None, rA = AccentMissing\<rparr>],
                 wordS = [], reasonChains = None, frequencyRank = None\<rparr>)
     context (ascii ''reading'') = Some [0x304C]"
  by (simp add: buildWordMarkers_def Let_def wordExpression_def wordReading_def wordReadings_def
      includesTag_def)

text \<open>
  The expression and reading markers of a word, in general: the reading is the text of the
  first reading not flagged \<open>sk\<close>, or empty; the expression is the text of the first kanji
  headword not flagged \<open>sK\<close>, and when there is none, the text of the first reading of the
  unfiltered list, or empty.
\<close>

lemma filter_head_find:
  "(case filter P xs of x # _ \<Rightarrow> f x | [] \<Rightarrow> d) = (case List.find P xs of Some x \<Rightarrow> f x | None \<Rightarrow> d)"
  by (induction xs) auto

theorem buildWordMarkers_expression_reading:
  "buildMarkerValues keys (WordEntry word) context (ascii ''reading'') =
     Some (case List.find (\<lambda>r. \<not> includesTag (rI r) (ascii ''sk'')) (wordR word) of
             Some r \<Rightarrow> rEnt r
           | None \<Rightarrow> []) \<and>
   buildMarkerValues keys (WordEntry word) context (ascii ''expression'') =
     Some (case List.find (\<lambda>k. \<not> includesTag (kI k) (ascii ''sK''))
                  (case wordK word of Some ks \<Rightarrow> ks | None \<Rightarrow> []) of
             Some k \<Rightarrow> kEnt k
           | None \<Rightarrow> (case wordR word of r # _ \<Rightarrow> rEnt r | [] \<Rightarrow> []))"
proof -
  have r: "wordReading word =
     (case List.find (\<lambda>r. \<not> includesTag (rI r) (ascii ''sk'')) (wordR word) of
             Some r \<Rightarrow> rEnt r
           | None \<Rightarrow> [])"
    by (simp add: wordReading_def wordReadings_def filter_head_find)
  have e: "wordExpression word =
     (case List.find (\<lambda>k. \<not> includesTag (kI k) (ascii ''sK''))
                  (case wordK word of Some ks \<Rightarrow> ks | None \<Rightarrow> []) of
             Some k \<Rightarrow> kEnt k
           | None \<Rightarrow> (case wordR word of r # _ \<Rightarrow> rEnt r | [] \<Rightarrow> []))"
    by (cases "wordK word") (simp_all add: wordExpression_def filter_head_find)
  show ?thesis
    by (simp add: buildWordMarkers_def Let_def r [symmetric] e [symmetric])
qed

section \<open>Properties of the note assembler\<close>

lemma fold_setProperty:
  "distinct (map fst es) \<Longrightarrow>
     fold (\<lambda>(k, v) m. setProperty m k (h v)) es m0 f =
       (if f = protoKey then m0 f
        else case map_of es f of Some v \<Rightarrow> Some (h v) | None \<Rightarrow> m0 f)"
proof (induction es arbitrary: m0)
  case Nil
  then show ?case by simp
next
  case (Cons e es)
  obtain k v where e: "e = (k, v)" by (cases e)
  from Cons.prems e have d: "distinct (map fst es)" and k: "map_of es k = None"
    by (auto simp: map_of_eq_None_iff)
  have "fold (\<lambda>(k, v) m. setProperty m k (h v)) (e # es) m0 f =
          fold (\<lambda>(k, v) m. setProperty m k (h v)) es (setProperty m0 k (h v)) f"
    by (simp add: e)
  also have "\<dots> = (if f = protoKey then setProperty m0 k (h v) f
        else case map_of es f of Some v' \<Rightarrow> Some (h v') | None \<Rightarrow> setProperty m0 k (h v) f)"
    by (rule Cons.IH [OF d])
  also have "\<dots> = (if f = protoKey then m0 f
        else case map_of (e # es) f of Some v' \<Rightarrow> Some (h v') | None \<Rightarrow> m0 f)"
    using k by (auto simp: e setProperty_def split: option.splits)
  finally show ?case .
qed

lemma applyOverrides_lookup:
  assumes "distinct (map fst ov)"
  shows "applyOverrides m (Some ov) f =
           (if f = protoKey then m f else case map_of ov f of Some v \<Rightarrow> Some v | None \<Rightarrow> m f)"
  using fold_setProperty [OF assms, of "\<lambda>v. v" m f] by (simp add: applyOverrides_def)

lemma renderFields_lookup:
  assumes "distinct (map fst ts)"
  shows "renderFields ts m f =
           (if f = protoKey then None
            else map_option (\<lambda>t. renderFieldTemplate t m) (map_of ts f))"
  using fold_setProperty [OF assms, of "\<lambda>t. renderFieldTemplate t m" Map.empty f]
  by (simp add: renderFields_def split: option.splits)

text \<open>
  C8. Let the templates be the entries of a record (no key twice). In the assembled note,
  the field of every name is the rendering of the template of that name under the marker
  values, overrides applied, and there is no field where there is no template; the rendering
  of one field does not depend on another. The one name set apart is \<open>__proto__\<close>, under which
  an assignment creates no property. The tags are the settings' tags, \<open>allowDuplicate\<close> is
  the negation of \<open>checkForDuplicates\<close>, the scope is the configured one, and the scope
  options name the note's deck, with \<open>checkChildren\<close> true and \<open>checkAllModels\<close> false.
\<close>

theorem buildAnkiNote_record:
  assumes "distinct (map fst (fieldTemplates settings))"
  shows "noteFields (buildAnkiNote keys entry settings context overrides) f =
           (if f = protoKey then None
            else map_option
                   (\<lambda>template. renderFieldTemplate template
                      (applyOverrides (buildMarkerValues keys entry context) overrides))
                   (map_of (fieldTemplates settings) f)) \<and>
         tags (buildAnkiNote keys entry settings context overrides) = settingsTags settings \<and>
         allowDuplicate (options (buildAnkiNote keys entry settings context overrides))
           = (\<not> checkForDuplicates settings) \<and>
         duplicateScope (options (buildAnkiNote keys entry settings context overrides))
           = settingsDuplicateScope settings \<and>
         deckName (buildAnkiNote keys entry settings context overrides) = settingsDeckName settings \<and>
         scopeDeckName (duplicateScopeOptions (options (buildAnkiNote keys entry settings context overrides)))
           = deckName (buildAnkiNote keys entry settings context overrides) \<and>
         checkChildren (duplicateScopeOptions (options (buildAnkiNote keys entry settings context overrides))) \<and>
         \<not> checkAllModels (duplicateScopeOptions (options (buildAnkiNote keys entry settings context overrides)))"
  by (simp add: buildAnkiNote_def Let_def renderFields_lookup [OF assms])

theorem buildAnkiNote_record_witness:
  "noteFields (buildAnkiNote (\<lambda>r. None) (KanjiEntry neko)
      (basicSettings [(ascii ''Front'', ascii ''{expression}''), (ascii ''Back'', ascii ''{glossary}!'')])
      None None) (ascii ''Back'') = Some (ascii ''cat!'') \<and>
   \<not> allowDuplicate (options (buildAnkiNote (\<lambda>r. None) (KanjiEntry neko)
      (basicSettings [(ascii ''Front'', ascii ''{expression}''), (ascii ''Back'', ascii ''{glossary}!'')])
      None None))"
proof -
  have d: "distinct (map fst (fieldTemplates
      (basicSettings [(ascii ''Front'', ascii ''{expression}''), (ascii ''Back'', ascii ''{glossary}!'')])))"
    by (simp add: basicSettings_def)
  have g: "buildMarkerValues (\<lambda>r. None) (KanjiEntry neko) None (ascii ''glossary'') = Some (ascii ''cat'')"
    by (simp add: buildKanjiMarkers_def Let_def neko_def)
  have s: "ascii ''glossary'' \<noteq> []" "isWordChar (hd (ascii ''glossary''))"
    "list_all isNameChar (tl (ascii ''glossary''))"
    by (simp_all add: ascii_def isWordChar_def isNameChar_def)
  have t: "ascii ''{glossary}!'' = [] @ 0x7B # ascii ''glossary'' @ 0x7D # ascii ''!''"
    by (simp add: ascii_def)
  have r: "renderFieldTemplate (ascii ''{glossary}!'') (buildMarkerValues (\<lambda>r. None) (KanjiEntry neko) None)
             = ascii ''cat!''"
    unfolding t using renderFieldTemplate_append_marker [OF s, of "[]" "ascii ''!''"
        "buildMarkerValues (\<lambda>r. None) (KanjiEntry neko) None"] g
    by (simp add: markerText_def getProperty_def) (simp add: ascii_def isWordChar_def)
  show ?thesis
    using buildAnkiNote_record [OF d, of "\<lambda>r. None" "KanjiEntry neko" None None "ascii ''Back''"] r
    by (simp add: basicSettings_def applyOverrides_def protoKey_def)
qed

text \<open>
  C10, as amended. Let the overrides and the templates be the entries of records. For every
  override \<open>(k, v)\<close> whose key has the shape of a marker name (a word character, then word
  characters or hyphens) and is not \<open>__proto__\<close>, the marker values used for rendering hold
  \<open>v\<close> under \<open>k\<close>, whatever was computed, and in every field whose template contains
  \<open>{k}\<close> that occurrence is replaced by \<open>v\<close>, the text around it being rendered on its
  own. Nothing asks that \<open>k\<close> be a name of the fixed vocabulary.
\<close>

theorem buildAnkiNote_override:
  assumes ov: "distinct (map fst ov)" "(k, v) \<in> set ov"
    and shape: "k \<noteq> []" "isWordChar (hd k)" "list_all isNameChar (tl k)"
    and proto: "k \<noteq> protoKey"
    and ts: "distinct (map fst (fieldTemplates settings))"
      "(f, a @ 0x7B # k @ 0x7D # b) \<in> set (fieldTemplates settings)" "f \<noteq> protoKey"
  shows "applyOverrides (buildMarkerValues keys entry context) (Some ov) k = Some v \<and>
         noteFields (buildAnkiNote keys entry settings context (Some ov)) f =
           Some (renderFieldTemplate a (applyOverrides (buildMarkerValues keys entry context) (Some ov))
                 @ v
                 @ renderFieldTemplate b (applyOverrides (buildMarkerValues keys entry context) (Some ov)))"
proof -
  let ?mv = "applyOverrides (buildMarkerValues keys entry context) (Some ov)"
  from ov have "map_of ov k = Some v" by simp
  with proto have mv: "?mv k = Some v" by (simp add: applyOverrides_lookup [OF ov(1)])
  then have "markerText ?mv k = v" by (simp add: markerText_def getProperty_def)
  with renderFieldTemplate_append_marker [OF shape, of a b ?mv]
  have r: "renderFieldTemplate (a @ 0x7B # k @ 0x7D # b) ?mv =
             renderFieldTemplate a ?mv @ v @ renderFieldTemplate b ?mv" by simp
  from ts have "map_of (fieldTemplates settings) f = Some (a @ 0x7B # k @ 0x7D # b)" by simp
  with ts(3) r have "noteFields (buildAnkiNote keys entry settings context (Some ov)) f =
           Some (renderFieldTemplate a ?mv @ v @ renderFieldTemplate b ?mv)"
    by (simp add: buildAnkiNote_def Let_def renderFields_lookup [OF ts(1)])
  with mv show ?thesis by simp
qed

text \<open>
  A key that has not the shape of a marker name is stored, but its brace pattern is no
  marker: the template \<open>{a b}\<close> stays as written.
\<close>

theorem buildAnkiNote_override_counterexample:
  "applyOverrides (buildMarkerValues (\<lambda>r. None) (KanjiEntry neko) None)
     (Some [(ascii ''a b'', ascii ''X'')]) (ascii ''a b'') = Some (ascii ''X'') \<and>
   noteFields (buildAnkiNote (\<lambda>r. None) (KanjiEntry neko)
      (basicSettings [(ascii ''Front'', ascii ''{a b}'')]) None
      (Some [(ascii ''a b'', ascii ''X'')])) (ascii ''Front'') = Some (ascii ''{a b}'')"
proof -
  have "renderFieldTemplate (ascii ''{a b}'') m = ascii ''{a b}''" for m
    by (simp add: ascii_def isWordChar_def isNameChar_def)
  then show ?thesis
    by (simp add: buildAnkiNote_def Let_def renderFields_def basicSettings_def applyOverrides_def
        setProperty_def protoKey_def)
qed

theorem buildAnkiNote_override_witness:
  "applyOverrides (buildMarkerValues (\<lambda>r. None) (KanjiEntry neko) None)
     (Some [(ascii ''audio'', ascii ''[sound:a.mp3]''), (ascii ''my-marker'', ascii ''M'')])
     (ascii ''my-marker'') = Some (ascii ''M'') \<and>
   ascii ''my-marker'' \<notin> set ANKI_FIELD_MARKERS \<and>
   noteFields (buildAnkiNote (\<lambda>r. None) (KanjiEntry neko)
      (basicSettings [(ascii ''Front'', ascii ''{audio}+{my-marker}'')]) None
      (Some [(ascii ''audio'', ascii ''[sound:a.mp3]''), (ascii ''my-marker'', ascii ''M'')]))
     (ascii ''Front'') = Some (ascii ''[sound:a.mp3]+M'')"
proof -
  let ?ov = "[(ascii ''audio'', ascii ''[sound:a.mp3]''), (ascii ''my-marker'', ascii ''M'')]"
  let ?st = "basicSettings [(ascii ''Front'', ascii ''{audio}+{my-marker}'')]"
  let ?mv = "applyOverrides (buildMarkerValues (\<lambda>r. None) (KanjiEntry neko) None) (Some ?ov)"
  have d: "distinct (map fst ?ov)" by simp
  have i: "(ascii ''my-marker'', ascii ''M'') \<in> set ?ov" by simp
  have s: "ascii ''my-marker'' \<noteq> []" "isWordChar (hd (ascii ''my-marker''))"
    "list_all isNameChar (tl (ascii ''my-marker''))"
    by (simp_all add: ascii_def isWordChar_def isNameChar_def)
  have p: "ascii ''my-marker'' \<noteq> protoKey" "ascii ''Front'' \<noteq> protoKey"
    by (simp_all add: protoKey_def)
  have dt: "distinct (map fst (fieldTemplates ?st))" by (simp add: basicSettings_def)
  have it: "(ascii ''Front'', ascii ''{audio}+'' @ 0x7B # ascii ''my-marker'' @ 0x7D # [])
              \<in> set (fieldTemplates ?st)"
    by (simp add: basicSettings_def ascii_def)
  have a: "?mv (ascii ''audio'') = Some (ascii ''[sound:a.mp3]'')"
    by (simp add: applyOverrides_lookup [OF d] protoKey_def)
  have sa: "ascii ''audio'' \<noteq> []" "isWordChar (hd (ascii ''audio''))"
    "list_all isNameChar (tl (ascii ''audio''))"
    by (simp_all add: ascii_def isWordChar_def isNameChar_def)
  have ta: "ascii ''{audio}+'' = [] @ 0x7B # ascii ''audio'' @ 0x7D # ascii ''+''"
    by (simp add: ascii_def)
  have plus: "renderFieldTemplate (ascii ''+'') ?mv = ascii ''+''"
    by (simp add: ascii_def)
  have ra: "renderFieldTemplate (ascii ''{audio}+'') ?mv = ascii ''[sound:a.mp3]+''"
    unfolding ta using renderFieldTemplate_append_marker [OF sa, of "[]" "ascii ''+''" ?mv] a plus
    by (simp add: markerText_def getProperty_def) (simp add: ascii_def)
  have v: "ascii ''my-marker'' \<notin> set ANKI_FIELD_MARKERS"
    by (simp add: ANKI_FIELD_MARKERS_def)
  from buildAnkiNote_override [OF d i s p(1) dt it p(2), of "\<lambda>r. None" "KanjiEntry neko" None]
  show ?thesis using ra v by (simp add: ascii_def)
qed

section \<open>The examples of the specification\<close>

text \<open>
  The furigana examples: a word of one kanji run takes the whole reading; \<open>ta-be-ru\<close>
  written with one kanji splits into the kanji with its reading and the kana run; a reading
  equal to the expression, or an expression all in kana, gives one segment without reading.
\<close>

theorem distributeFurigana_examples:
  "distributeFurigana [0x6F22, 0x5B57] [0x304B, 0x3093, 0x3058]
     = [\<lparr>segText = [0x6F22, 0x5B57], segReading = [0x304B, 0x3093, 0x3058]\<rparr>] \<and>
   distributeFurigana [0x98DF, 0x3079, 0x308B] [0x305F, 0x3079, 0x308B]
     = [\<lparr>segText = [0x98DF], segReading = [0x305F]\<rparr>, \<lparr>segText = [0x3079, 0x308B], segReading = []\<rparr>] \<and>
   distributeFurigana e e = [\<lparr>segText = e, segReading = []\<rparr>] \<and>
   (isAllKana e \<longrightarrow> distributeFurigana e r = [\<lparr>segText = e, segReading = []\<rparr>])"
proof -
  have 1: "distributeFurigana [0x6F22, 0x5B57] [0x304B, 0x3093, 0x3058]
     = [\<lparr>segText = [0x6F22, 0x5B57], segReading = [0x304B, 0x3093, 0x3058]\<rparr>]"
    by (simp add: furigana_eval_defs)
  have 2: "distributeFurigana [0x98DF, 0x3079, 0x308B] [0x305F, 0x3079, 0x308B]
     = [\<lparr>segText = [0x98DF], segReading = [0x305F]\<rparr>, \<lparr>segText = [0x3079, 0x308B], segReading = []\<rparr>]"
    by (simp add: furigana_eval_defs)
  have 3: "distributeFurigana e e = [\<lparr>segText = e, segReading = []\<rparr>]"
    by (simp add: distributeFurigana_def)
  have 4: "isAllKana e \<longrightarrow> distributeFurigana e r = [\<lparr>segText = e, segReading = []\<rparr>]"
    by (simp add: distributeFurigana_def)
  from 1 2 3 4 show ?thesis by simp
qed

theorem distributeFurigana_examples_witness:
  "isAllKana [0x30AB, 0x306A] \<and>
   distributeFurigana [0x30AB, 0x306A] [0x304B, 0x306A] = [\<lparr>segText = [0x30AB, 0x306A], segReading = []\<rparr>]"
proof -
  have k: "isAllKana [0x30AB, 0x306A]"
    by (simp add: furigana_eval_defs)
  with distributeFurigana_examples [of "[0x30AB, 0x306A]" "[0x304B, 0x306A]"] show ?thesis by simp
qed

text \<open>
  The glossary forms of an empty list are empty; of a single sense, the brief and plain forms
  are its glosses and the full form its full serialization, with no number; a sense with the
  one gloss \<open>cat\<close> and no tags is \<open>cat\<close> in every form.
\<close>

theorem serializeSenses_single:
  "serializeSensesHtml [] brief = [] \<and> serializeSensesPlain [] = [] \<and>
   serializeSensesHtml [sense] True = glossesToStr sense \<and>
   serializeSensesHtml [sense] False = serializeSingleSenseFull sense \<and>
   serializeSensesPlain [sense] = glossesToStr sense \<and>
   serializeSingleSenseFull
     \<lparr>senseG = [\<lparr>glossStr = ascii ''cat'', glossType = None\<rparr>], sensePos = None,
      senseField = None, senseMisc = None, senseInf = None, senseLang = None\<rparr> = ascii ''cat'' \<and>
   glossesToStr
     \<lparr>senseG = [\<lparr>glossStr = ascii ''cat'', glossType = None\<rparr>], sensePos = None,
      senseField = None, senseMisc = None, senseInf = None, senseLang = None\<rparr> = ascii ''cat''"
  by (simp add: serializeSensesHtml_def serializeSensesPlain_def senseText_def
      serializeSingleSenseBrief_def serializeSingleSenseFull_def glossesToStr_def hasLength_def
      truthy_def)


end
